theory Spec2Isabelle
  imports Complex_Main
begin

section \<open>JSON values and the Python operations the pipeline applies to them\<close>

text \<open>
  Every stage of the pipeline receives and returns JSON: the Lambda event, the facts and
  submissions documents read back from S3, the model's reply. A JSON value as
  \<^verbatim>\<open>json.loads\<close> builds it is \<^verbatim>\<open>None\<close>, a \<^verbatim>\<open>bool\<close>, an
  \<^verbatim>\<open>int\<close> (unbounded), a \<^verbatim>\<open>float\<close>, a \<^verbatim>\<open>str\<close>, a \<^verbatim>\<open>list\<close>
  or a \<^verbatim>\<open>dict\<close> with string keys. A dict is an association list in insertion
  order whose keys are distinct; lookups read the first binding of a key.

  Floats are idealised as exact rationals: rounding error, overflow, infinities and NaN
  of IEEE doubles are not modelled. Strings are lists of characters, compared by
  character code.
\<close>

datatype json =
    JNull
  | JBool bool
  | JInt int
  | JFloat rat
  | JStr string
  | JList "json list"
  | JObj "(string \<times> json) list"

text \<open>The exceptions the code can raise, as values. \<open>ExternalError\<close> stands for any
  exception of an external collaborator (S3, Bedrock, SES).\<close>

datatype py_error =
    AttributeError
  | TypeError
  | KeyError
  | IndexError
  | ZeroDivisionError
  | ValueError string
  | JSONDecodeError
  | ExternalError string

text \<open>Sequencing of statements that may raise: the first exception ends the run.\<close>

definition bindE :: "py_error + 'a \<Rightarrow> ('a \<Rightarrow> py_error + 'b) \<Rightarrow> py_error + 'b" where
  "bindE m f = (case m of Inl e \<Rightarrow> Inl e | Inr x \<Rightarrow> f x)"

text \<open>Truthiness, as \<^verbatim>\<open>if x:\<close>, \<^verbatim>\<open>not x\<close> and \<^verbatim>\<open>x or y\<close> test it.\<close>

fun py_truthy :: "json \<Rightarrow> bool" where
  "py_truthy JNull = False"
| "py_truthy (JBool b) = b"
| "py_truthy (JInt i) = (i \<noteq> 0)"
| "py_truthy (JFloat r) = (r \<noteq> 0)"
| "py_truthy (JStr s) = (s \<noteq> [])"
| "py_truthy (JList xs) = (xs \<noteq> [])"
| "py_truthy (JObj kvs) = (kvs \<noteq> [])"

text \<open>\<^verbatim>\<open>a or b\<close>.\<close>

definition py_or :: "json \<Rightarrow> json \<Rightarrow> json" where
  "py_or a b = (if py_truthy a then a else b)"

text \<open>The numeric value of a number; \<^verbatim>\<open>bool\<close> is a subclass of \<^verbatim>\<open>int\<close>.\<close>

fun num_of :: "json \<Rightarrow> rat option" where
  "num_of (JBool b) = Some (if b then 1 else 0)"
| "num_of (JInt i) = Some (of_int i)"
| "num_of (JFloat r) = Some r"
| "num_of _ = None"

text \<open>\<^verbatim>\<open>a == b\<close>: numbers by value across \<^verbatim>\<open>bool\<close>, \<^verbatim>\<open>int\<close> and
  \<^verbatim>\<open>float\<close>, lists elementwise, dicts as mappings. It never raises.\<close>

fun py_eq :: "json \<Rightarrow> json \<Rightarrow> bool"
  and py_eq_list :: "json list \<Rightarrow> json list \<Rightarrow> bool"
  and py_eq_dict :: "(string \<times> json) list \<Rightarrow> (string \<times> json) list \<Rightarrow> bool" where
  "py_eq JNull b = (b = JNull)"
| "py_eq (JBool x) b = (num_of b = Some (if x then 1 else 0))"
| "py_eq (JInt x) b = (num_of b = Some (of_int x))"
| "py_eq (JFloat x) b = (num_of b = Some x)"
| "py_eq (JStr s) b = (b = JStr s)"
| "py_eq (JList xs) b = (case b of JList ys \<Rightarrow> py_eq_list xs ys | _ \<Rightarrow> False)"
| "py_eq (JObj xs) b =
     (case b of JObj ys \<Rightarrow> length xs = length ys \<and> py_eq_dict xs ys | _ \<Rightarrow> False)"
| "py_eq_list [] ys = (ys = [])"
| "py_eq_list (x # xs) ys =
     (case ys of [] \<Rightarrow> False | y # ys' \<Rightarrow> py_eq x y \<and> py_eq_list xs ys')"
| "py_eq_dict [] ys = True"
| "py_eq_dict (kv # xs) ys =
     (case map_of ys (fst kv) of
        None \<Rightarrow> False
      | Some w \<Rightarrow> py_eq (snd kv) w \<and> py_eq_dict xs ys)"

text \<open>\<^verbatim>\<open>a < b\<close> on strings: lexicographic by character code.\<close>

fun str_lt :: "string \<Rightarrow> string \<Rightarrow> bool" where
  "str_lt [] [] = False"
| "str_lt [] (y # ys) = True"
| "str_lt (x # xs) [] = False"
| "str_lt (x # xs) (y # ys) =
     (if x = y then str_lt xs ys else (of_char x :: nat) < of_char y)"

text \<open>\<^verbatim>\<open>a < b\<close>: defined between two numbers, two strings and two lists (at the
  first pair of unequal elements, else by length); \<^verbatim>\<open>TypeError\<close> otherwise, in
  particular whenever a side is \<^verbatim>\<open>None\<close> or a dict.\<close>

fun py_lt :: "json \<Rightarrow> json \<Rightarrow> py_error + bool"
  and py_lt_list :: "json list \<Rightarrow> json list \<Rightarrow> py_error + bool" where
  "py_lt (JStr a) b = (case b of JStr s \<Rightarrow> Inr (str_lt a s) | _ \<Rightarrow> Inl TypeError)"
| "py_lt (JList xs) b = (case b of JList ys \<Rightarrow> py_lt_list xs ys | _ \<Rightarrow> Inl TypeError)"
| "py_lt JNull b = Inl TypeError"
| "py_lt (JObj kvs) b = Inl TypeError"
| "py_lt (JBool x) b =
     (case num_of b of Some y \<Rightarrow> Inr ((if x then 1 else 0) < y) | None \<Rightarrow> Inl TypeError)"
| "py_lt (JInt x) b =
     (case num_of b of Some y \<Rightarrow> Inr (of_int x < y) | None \<Rightarrow> Inl TypeError)"
| "py_lt (JFloat x) b =
     (case num_of b of Some y \<Rightarrow> Inr (x < y) | None \<Rightarrow> Inl TypeError)"
| "py_lt_list [] ys = Inr (ys \<noteq> [])"
| "py_lt_list (x # xs) ys =
     (case ys of
        [] \<Rightarrow> Inr False
      | y # ys' \<Rightarrow> if py_eq x y then py_lt_list xs ys' else py_lt x y)"

text \<open>\<^verbatim>\<open>d.get(key, default)\<close>: only a dict has the method.\<close>

definition dict_get :: "json \<Rightarrow> string \<Rightarrow> json \<Rightarrow> py_error + json" where
  "dict_get d k dflt =
     (case d of
        JObj kvs \<Rightarrow> Inr (case map_of kvs k of Some v \<Rightarrow> v | None \<Rightarrow> dflt)
      | _ \<Rightarrow> Inl AttributeError)"

text \<open>\<^verbatim>\<open>needle in haystack\<close> on strings: a contiguous substring.\<close>

fun starts_with :: "string \<Rightarrow> string \<Rightarrow> bool" where
  "starts_with [] s = True"
| "starts_with (c # cs) [] = False"
| "starts_with (c # cs) (d # ds) = (c = d \<and> starts_with cs ds)"

fun is_substring :: "string \<Rightarrow> string \<Rightarrow> bool" where
  "is_substring k [] = (k = [])"
| "is_substring k (c # cs) = (starts_with k (c # cs) \<or> is_substring k cs)"

text \<open>\<^verbatim>\<open>key in obj\<close> for a string key: a key of a dict, an element of a list, a
  substring of a string; \<^verbatim>\<open>TypeError\<close> on anything else.\<close>

definition py_in :: "string \<Rightarrow> json \<Rightarrow> py_error + bool" where
  "py_in k obj =
     (case obj of
        JObj kvs \<Rightarrow> Inr (map_of kvs k \<noteq> None)
      | JList xs \<Rightarrow> Inr (List.member xs (JStr k))
      | JStr s \<Rightarrow> Inr (is_substring k s)
      | _ \<Rightarrow> Inl TypeError)"

text \<open>\<^verbatim>\<open>obj[key]\<close> for a string key.\<close>

definition py_getitem :: "json \<Rightarrow> string \<Rightarrow> py_error + json" where
  "py_getitem obj k =
     (case obj of
        JObj kvs \<Rightarrow> (case map_of kvs k of Some v \<Rightarrow> Inr v | None \<Rightarrow> Inl KeyError)
      | _ \<Rightarrow> Inl TypeError)"

text \<open>The elements a \<^verbatim>\<open>for\<close> loop, a comprehension or \<^verbatim>\<open>sorted\<close> sees: the
  elements of a list, the keys of a dict, the characters of a string.\<close>

definition py_iter :: "json \<Rightarrow> py_error + json list" where
  "py_iter obj =
     (case obj of
        JList xs \<Rightarrow> Inr xs
      | JObj kvs \<Rightarrow> Inr (map (\<lambda>kv. JStr (fst kv)) kvs)
      | JStr s \<Rightarrow> Inr (map (\<lambda>c. JStr [c]) s)
      | _ \<Rightarrow> Inl TypeError)"

section \<open>The fact extractor: \<^verbatim>\<open>get_latest_fact\<close> of build\_features\<close>

text \<open>\<^verbatim>\<open>[f for f in fact_list if "frame" in f and f.get("form") == "10-K"]\<close>\<close>

fun annual_filter :: "json list \<Rightarrow> py_error + json list" where
  "annual_filter [] = Inr []"
| "annual_filter (f # fs) =
     bindE (py_in ''frame'' f) (\<lambda>has_frame.
     bindE (if has_frame
            then bindE (dict_get f ''form'' JNull) (\<lambda>form. Inr (py_eq form (JStr ''10-K'')))
            else Inr False) (\<lambda>keep.
     bindE (annual_filter fs) (\<lambda>rest.
     Inr (if keep then f # rest else rest))))"

text \<open>The sort key \<^verbatim>\<open>lambda x: x.get("fy", 0)\<close>, computed for every element before
  the first comparison.\<close>

fun fy_keys :: "json list \<Rightarrow> py_error + (json \<times> json) list" where
  "fy_keys [] = Inr []"
| "fy_keys (x # xs) =
     bindE (dict_get x ''fy'' (JInt 0)) (\<lambda>k.
     bindE (fy_keys xs) (\<lambda>rest.
     Inr ((k, x) # rest)))"

text \<open>A stable sort by key, descending (\<^verbatim>\<open>reverse=True\<close> keeps the original order of
  elements with equal keys), by insertion with \<^verbatim>\<open><\<close> on the keys. A comparison
  that raises ends the sort. On keys that are all numbers or all strings this is the
  result of \<^verbatim>\<open>sorted\<close>; on two or more keys that are not all numbers, all strings
  or all lists, some comparison raises \<^verbatim>\<open>TypeError\<close>, here as there. Which pairs
  CPython compares is its own matter, so for keys that are lists with incomparable
  elements the model may raise where CPython does not, or the reverse.\<close>

fun insert_desc :: "json \<times> json \<Rightarrow> (json \<times> json) list \<Rightarrow> py_error + (json \<times> json) list" where
  "insert_desc x [] = Inr [x]"
| "insert_desc x (y # ys) =
     bindE (py_lt (fst x) (fst y)) (\<lambda>less.
     if less then bindE (insert_desc x ys) (\<lambda>rest. Inr (y # rest))
     else Inr (x # y # ys))"

fun sort_desc :: "(json \<times> json) list \<Rightarrow> py_error + (json \<times> json) list" where
  "sort_desc [] = Inr []"
| "sort_desc (x # xs) = bindE (sort_desc xs) (insert_desc x)"

definition sorted_by_fy_desc :: "json list \<Rightarrow> py_error + json list" where
  "sorted_by_fy_desc xs =
     bindE (fy_keys xs) (\<lambda>keyed.
     bindE (sort_desc keyed) (\<lambda>sorted_keyed.
     Inr (map snd sorted_keyed)))"

text \<open>\<^verbatim>\<open>next((f for f in annual_filings if f.get("fy") == fiscal_year), None)\<close>\<close>

fun find_fy :: "json \<Rightarrow> json list \<Rightarrow> py_error + json option" where
  "find_fy fiscal_year [] = Inr None"
| "find_fy fiscal_year (f # fs) =
     bindE (dict_get f ''fy'' JNull) (\<lambda>fy.
     if py_eq fy fiscal_year then Inr (Some f) else find_fy fiscal_year fs)"

text \<open>\<^verbatim>\<open>return x.get("val"), x.get("fy")\<close>\<close>

definition val_and_fy :: "json \<Rightarrow> py_error + json \<times> json" where
  "val_and_fy x =
     bindE (dict_get x ''val'' JNull) (\<lambda>v.
     bindE (dict_get x ''fy'' JNull) (\<lambda>fy.
     Inr (v, fy)))"

text \<open>Lines 23 to 45 of the \<^verbatim>\<open>try\<close> block: from the unit list
  \<^verbatim>\<open>fact_list\<close> to the returned pair. The default of the parameter
  \<^verbatim>\<open>fiscal_year\<close> is \<^verbatim>\<open>None\<close>, here \<open>JNull\<close>.\<close>

definition select_fact :: "json \<Rightarrow> json \<Rightarrow> py_error + json \<times> json" where
  "select_fact fact_list fiscal_year =
     bindE (py_iter fact_list) (\<lambda>items.
     bindE (annual_filter items) (\<lambda>annual_filings.
     if annual_filings = [] then
       (if py_truthy fact_list then
          bindE (sorted_by_fy_desc items) (\<lambda>fact_list_sorted.
          case fact_list_sorted of
            [] \<Rightarrow> Inl IndexError
          | candidate # _ \<Rightarrow> val_and_fy candidate)
        else Inr (JNull, JNull))
     else
       bindE (sorted_by_fy_desc annual_filings) (\<lambda>annual_sorted.
       case annual_sorted of
         [] \<Rightarrow> Inl IndexError
       | target_filing # _ \<Rightarrow>
           if py_truthy fiscal_year then
             bindE (find_fy fiscal_year annual_sorted) (\<lambda>found.
             case found of
               None \<Rightarrow> Inr (JNull, JNull)
             | Some f \<Rightarrow> if py_truthy f then val_and_fy f else Inr (JNull, JNull))
           else val_and_fy target_filing)))"

text \<open>The body of the \<^verbatim>\<open>try\<close> block: lines 14 to 22 look the unit list up, the
  rest is \<open>select_fact\<close>.\<close>

definition get_latest_fact_body :: "json \<Rightarrow> string \<Rightarrow> json \<Rightarrow> py_error + json \<times> json" where
  "get_latest_fact_body facts_data fact_name fiscal_year =
     bindE (dict_get facts_data ''facts'' (JObj [])) (\<lambda>facts_top.
     bindE (dict_get facts_top ''us-gaap'' (JObj [])) (\<lambda>facts.
     bindE (py_in fact_name facts) (\<lambda>known.
     if \<not> known then Inr (JNull, JNull) else
     bindE (py_getitem facts fact_name) (\<lambda>concept.
     bindE (dict_get concept ''units'' (JObj [])) (\<lambda>units.
     bindE (py_in ''USD'' units) (\<lambda>has_usd.
     if \<not> has_usd then Inr (JNull, JNull) else
     bindE (py_getitem units ''USD'') (\<lambda>fact_list.
     select_fact fact_list fiscal_year)))))))"

text \<open>\<^verbatim>\<open>except Exception: return None, None\<close> around the body.\<close>

definition get_latest_fact :: "json \<Rightarrow> string \<Rightarrow> json \<Rightarrow> py_error + json \<times> json" where
  "get_latest_fact facts_data fact_name fiscal_year =
     (case get_latest_fact_body facts_data fact_name fiscal_year of
        Inl e \<Rightarrow> Inr (JNull, JNull)
      | Inr r \<Rightarrow> Inr r)"

section \<open>build\_features: payload normalisation and KPI derivation\<close>

text \<open>\<^verbatim>\<open>not x\<close>.\<close>

definition py_not :: "json \<Rightarrow> bool" where
  "py_not x = (\<not> py_truthy x)"

text \<open>An \<^verbatim>\<open>int\<close> or a \<^verbatim>\<open>bool\<close> as an integer.\<close>

fun int_of :: "json \<Rightarrow> int option" where
  "int_of (JBool b) = Some (if b then 1 else 0)"
| "int_of (JInt i) = Some i"
| "int_of _ = None"

text \<open>\<^verbatim>\<open>a - b\<close>: an \<^verbatim>\<open>int\<close> from two integers, a \<^verbatim>\<open>float\<close> from numbers
  one of which is a float, \<^verbatim>\<open>TypeError\<close> otherwise.\<close>

definition py_sub :: "json \<Rightarrow> json \<Rightarrow> py_error + json" where
  "py_sub a b =
     (case (int_of a, int_of b) of
        (Some x, Some y) \<Rightarrow> Inr (JInt (x - y))
      | _ \<Rightarrow>
        (case (num_of a, num_of b) of
           (Some x, Some y) \<Rightarrow> Inr (JFloat (x - y))
         | _ \<Rightarrow> Inl TypeError))"

text \<open>\<^verbatim>\<open>a / b\<close>: true division, always a \<^verbatim>\<open>float\<close>.\<close>

definition py_truediv :: "json \<Rightarrow> json \<Rightarrow> py_error + json" where
  "py_truediv a b =
     (case (num_of a, num_of b) of
        (Some x, Some y) \<Rightarrow> if y = 0 then Inl ZeroDivisionError else Inr (JFloat (x / y))
      | _ \<Rightarrow> Inl TypeError)"

text \<open>\<^verbatim>\<open>a > b\<close>, which for these values is \<^verbatim>\<open>b < a\<close>.\<close>

definition py_gt :: "json \<Rightarrow> json \<Rightarrow> py_error + bool" where
  "py_gt a b = py_lt b a"

text \<open>\<^verbatim>\<open>try: x = e except Exception: x = None\<close>\<close>

definition try_or_none :: "py_error + json \<Rightarrow> json" where
  "try_or_none m = (case m of Inl e \<Rightarrow> JNull | Inr v \<Rightarrow> v)"

text \<open>\<^verbatim>\<open>round(x, 2)\<close> on a float: to the nearest multiple of 1/100, a tie to the even
  one.\<close>

definition round_half_even :: "rat \<Rightarrow> int" where
  "round_half_even x =
     (let f = \<lfloor>x\<rfloor>; d = x - of_int f in
      if d < 1 / 2 then f
      else if 1 / 2 < d then f + 1
      else if even f then f else f + 1)"

definition py_round2 :: "rat \<Rightarrow> rat" where
  "py_round2 x = of_int (round_half_even (x * 100)) / 100"

text \<open>\<^verbatim>\<open>round(x * 100, 2) if x is not None else None\<close>. The handler only ever passes
  \<^verbatim>\<open>None\<close> or the float of a division; on an integer \<^verbatim>\<open>round\<close> returns
  the integer.\<close>

definition pct_rounded :: "json \<Rightarrow> py_error + json" where
  "pct_rounded x =
     (case x of
        JNull \<Rightarrow> Inr JNull
      | JFloat r \<Rightarrow> Inr (JFloat (py_round2 (r * 100)))
      | JInt i \<Rightarrow> Inr (JInt (i * 100))
      | JBool b \<Rightarrow> Inr (JInt (if b then 100 else 0))
      | _ \<Rightarrow> Inl TypeError)"

text \<open>What the handler calls outside itself: \<open>s3_get_json key\<close> is
  \<^verbatim>\<open>json.loads(s3.get_object(Bucket=OUTPUT_BUCKET, Key=key)["Body"].read().decode('utf-8'))\<close>
  and \<open>format_str\<close> is how an f-string renders a value (\<^verbatim>\<open>str\<close>).\<close>

record build_env =
  s3_get_json :: "json \<Rightarrow> py_error + json"
  format_str :: "json \<Rightarrow> string"

text \<open>Lines 57 to 59: the \<^verbatim>\<open>edgar_data\<close> object, out of one \<^verbatim>\<open>Payload\<close>
  wrapper when it has one.\<close>

definition edgar_object :: "json \<Rightarrow> py_error + json" where
  "edgar_object event =
     bindE (dict_get event ''edgar_data'' JNull) (\<lambda>e.
     let edgar_obj = py_or e (JObj []) in
     (case edgar_obj of
        JObj kvs \<Rightarrow>
          (case map_of kvs ''Payload'' of Some payload \<Rightarrow> Inr payload | None \<Rightarrow> Inr edgar_obj)
      | _ \<Rightarrow> Inr edgar_obj))"

text \<open>Lines 62 to 65: the storage references, under the \<^verbatim>\<open>edgar_data\<close> object or
  at the top level of the event.\<close>

definition s3_references :: "json \<Rightarrow> json \<Rightarrow> py_error + json" where
  "s3_references event edgar_obj =
     bindE (dict_get edgar_obj ''s3_references'' JNull) (\<lambda>nested.
     bindE (if py_truthy nested then Inr nested
            else dict_get edgar_obj ''s3_references'' (JObj [])) (\<lambda>s3_refs.
     if py_not s3_refs
     then bindE (dict_get event ''s3_references'' (JObj [])) (\<lambda>top_level.
          Inr (py_or top_level (JObj [])))
     else Inr s3_refs))"

text \<open>Lines 83 to 106: the latest revenue and its year, the year-over-year growth and
  the sales-and-marketing share, the last two as fractions or \<^verbatim>\<open>None\<close>.\<close>

definition derive_kpis :: "json \<Rightarrow> py_error + json \<times> json \<times> json \<times> json" where
  "derive_kpis facts_data =
     bindE (get_latest_fact facts_data ''Revenues'' JNull) (\<lambda>(latest_revenue, year).
     if year \<noteq> JNull \<and> latest_revenue \<noteq> JNull then
       bindE (py_sub year (JInt 1)) (\<lambda>prev_year.
       bindE (get_latest_fact facts_data ''Revenues'' prev_year) (\<lambda>(prev_revenue, _).
       bindE (get_latest_fact facts_data ''SalesAndMarketingExpense'' year) (\<lambda>(latest_sm_expense, _).
       bindE (if latest_revenue \<noteq> JNull \<and> prev_revenue \<noteq> JNull
              then bindE (py_gt prev_revenue (JInt 0)) (\<lambda>positive.
                   Inr (if positive
                        then try_or_none
                               (bindE (py_sub latest_revenue prev_revenue) (\<lambda>diff.
                                py_truediv diff prev_revenue))
                        else JNull))
              else Inr JNull) (\<lambda>yoy_revenue_growth.
       bindE (if latest_revenue \<noteq> JNull \<and> latest_sm_expense \<noteq> JNull
              then bindE (py_gt latest_revenue (JInt 0)) (\<lambda>positive.
                   Inr (if positive
                        then try_or_none (py_truediv latest_sm_expense latest_revenue)
                        else JNull))
              else Inr JNull) (\<lambda>sm_as_pct_revenue.
       Inr (latest_revenue, year, yoy_revenue_growth, sm_as_pct_revenue))))))
     else Inr (latest_revenue, year, JNull, JNull))"

text \<open>The handler of build\_features. \<open>Inl\<close> is an exception that leaves the handler,
  \<open>Inr\<close> the returned feature record.\<close>

definition build_features_handler :: "build_env \<Rightarrow> json \<Rightarrow> py_error + json" where
  "build_features_handler env event =
     bindE (edgar_object event) (\<lambda>edgar_obj.
     bindE (s3_references event edgar_obj) (\<lambda>s3_refs.
     bindE (dict_get s3_refs ''facts_key'' JNull) (\<lambda>facts_key.
     bindE (dict_get s3_refs ''submissions_key'' JNull) (\<lambda>submissions_key.
     if py_not facts_key \<or> py_not submissions_key
     then Inl (ValueError ''Missing S3 references in the event payload'')
     else
     bindE (s3_get_json env facts_key) (\<lambda>facts_data.
     bindE (s3_get_json env submissions_key) (\<lambda>submissions_data.
     bindE (dict_get event ''cik'' JNull) (\<lambda>event_cik.
     bindE (if py_truthy event_cik then Inr event_cik
            else dict_get edgar_obj ''cik'' JNull) (\<lambda>cik.
     bindE (dict_get event ''name'' JNull) (\<lambda>name.
     bindE (derive_kpis facts_data) (\<lambda>(latest_revenue, year, yoy_revenue_growth, sm_as_pct_revenue).
     bindE (dict_get submissions_data ''sicDescription'' (JStr ''N/A'')) (\<lambda>sic_description.
     bindE (dict_get submissions_data ''fiscalYearEnd'' (JStr ''N/A'')) (\<lambda>fiscal_year_end.
     bindE (pct_rounded yoy_revenue_growth) (\<lambda>yoy_pct.
     bindE (pct_rounded sm_as_pct_revenue) (\<lambda>sm_pct.
     Inr (JObj
       [(''company_name'', name),
        (''cik'', cik),
        (''fiscal_year'', year),
        (''industry'', sic_description),
        (''fiscal_year_end'', fiscal_year_end),
        (''latest_revenue_usd'', latest_revenue),
        (''yoy_revenue_growth_pct'', yoy_pct),
        (''sm_expense_as_pct_revenue'', sm_pct),
        (''data_source'', JStr (''https://www.sec.gov/edgar/browse/?CIK='' @ format_str env cik))])
     ))))))))))))))"

section \<open>External collaborators of the notifying stages\<close>

text \<open>The two stages that call the model and send mail talk to AWS and to the Python
  library through the functions of this record; the handlers are modelled for every
  behaviour of them.
  \<^item> \<open>boto_client service region\<close>: \<^verbatim>\<open>boto3.client(service, region_name=region)\<close>
    (\<open>JNull\<close> when no region is passed);
  \<^item> \<open>bedrock_invoke_model model_id body\<close>: \<^verbatim>\<open>invoke_model\<close> on the request
    \<open>body\<close>, and \<^verbatim>\<open>json.loads\<close> of the body it answers;
  \<^item> \<open>s3_put_object key body content_type\<close> and
    \<open>ses_send_email sender recipient subject html\<close>;
  \<^item> \<open>json_loads\<close>, \<open>json_dumps\<close>: \<^verbatim>\<open>json.loads\<close> and \<^verbatim>\<open>json.dumps\<close>;
    \<open>format_value\<close>: \<^verbatim>\<open>str\<close> as an f-string applies it; \<open>parse_int\<close> and
    \<open>parse_float\<close>: \<^verbatim>\<open>int\<close> and \<^verbatim>\<open>float\<close> on a string, \<open>None\<close> where
    they raise \<^verbatim>\<open>ValueError\<close>;
  \<^item> \<open>environ\<close>: the environment variables; \<open>output_bucket\<close>: the module
    constant \<^verbatim>\<open>OUTPUT_BUCKET\<close>, read when the module loads; \<open>utc_today\<close>:
    \<^verbatim>\<open>datetime.now(timezone.utc).strftime("%Y-%m-%d")\<close>.\<close>

datatype payload = TextBody string | JsonBody json

record aws_env =
  boto_client :: "string \<Rightarrow> json \<Rightarrow> py_error + unit"
  bedrock_invoke_model :: "json \<Rightarrow> json \<Rightarrow> py_error + json"
  s3_put_object :: "string \<Rightarrow> payload \<Rightarrow> string \<Rightarrow> py_error + unit"
  ses_send_email :: "json \<Rightarrow> json \<Rightarrow> json \<Rightarrow> json \<Rightarrow> py_error + json"
  json_loads :: "string \<Rightarrow> py_error + json"
  json_dumps :: "json \<Rightarrow> string"
  json_dumps_indent :: "json \<Rightarrow> string"
  format_value :: "json \<Rightarrow> string"
  parse_int :: "string \<Rightarrow> int option"
  parse_float :: "string \<Rightarrow> rat option"
  environ :: "string \<Rightarrow> string option"
  output_bucket :: string
  utc_today :: string

text \<open>The external calls a run makes, in order.\<close>

datatype call =
    BedrockInvoke json json
  | S3Put string payload string
  | SesSend json json json json

text \<open>A run of a handler: the calls it made, and the exception that left it (\<open>Inl\<close>) or
  the value it returned (\<open>Inr\<close>).\<close>

type_synonym 'a run = "call list \<times> (py_error + 'a)"

definition pure_step :: "py_error + 'a \<Rightarrow> 'a run" where
  "pure_step r = ([], r)"

definition call_step :: "call \<Rightarrow> py_error + 'a \<Rightarrow> 'a run" where
  "call_step c r = ([c], r)"

definition then_run :: "'a run \<Rightarrow> ('a \<Rightarrow> 'b run) \<Rightarrow> 'b run" where
  "then_run m f =
     (case snd m of
        Inl e \<Rightarrow> (fst m, Inl e)
      | Inr x \<Rightarrow> (fst m @ fst (f x), snd (f x)))"

text \<open>\<^verbatim>\<open>os.environ.get(name, default)\<close>\<close>

definition getenv :: "aws_env \<Rightarrow> string \<Rightarrow> string \<Rightarrow> string" where
  "getenv env name dflt = (case environ env name of Some v \<Rightarrow> v | None \<Rightarrow> dflt)"

text \<open>\<^verbatim>\<open>int(x)\<close> and \<^verbatim>\<open>float(x)\<close>.\<close>

definition py_int :: "aws_env \<Rightarrow> json \<Rightarrow> py_error + json" where
  "py_int env x =
     (case x of
        JInt i \<Rightarrow> Inr (JInt i)
      | JBool b \<Rightarrow> Inr (JInt (if b then 1 else 0))
      | JFloat r \<Rightarrow> Inr (JInt (if 0 \<le> r then \<lfloor>r\<rfloor> else \<lceil>r\<rceil>))
      | JStr s \<Rightarrow>
          (case parse_int env s of
             Some i \<Rightarrow> Inr (JInt i)
           | None \<Rightarrow> Inl (ValueError ''invalid literal for int()''))
      | _ \<Rightarrow> Inl TypeError)"

definition py_float :: "aws_env \<Rightarrow> json \<Rightarrow> py_error + json" where
  "py_float env x =
     (case x of
        JStr s \<Rightarrow>
          (case parse_float env s of
             Some r \<Rightarrow> Inr (JFloat r)
           | None \<Rightarrow> Inl (ValueError ''could not convert string to float''))
      | _ \<Rightarrow> (case num_of x of Some r \<Rightarrow> Inr (JFloat r) | None \<Rightarrow> Inl TypeError))"

text \<open>String methods. Only ASCII letters change case here; characters beyond ASCII are
  outside the model.\<close>

definition is_space :: "char \<Rightarrow> bool" where
  "is_space c = ((of_char c :: nat) \<in> {9, 10, 11, 12, 13, 28, 29, 30, 31, 32, 133, 160})"

definition py_strip :: "string \<Rightarrow> string" where
  "py_strip s = rev (dropWhile is_space (rev (dropWhile is_space s)))"

definition lower_char :: "char \<Rightarrow> char" where
  "lower_char c =
     (let n = (of_char c :: nat) in if 65 \<le> n \<and> n \<le> 90 then char_of (n + 32) else c)"

definition py_lower :: "string \<Rightarrow> string" where
  "py_lower s = map lower_char s"

text \<open>\<^verbatim>\<open>html.escape(s)\<close>, with \<^verbatim>\<open>quote=True\<close>.\<close>

definition escape_char :: "char \<Rightarrow> string" where
  "escape_char c =
     (if c = CHR ''&'' then ''&amp;''
      else if c = CHR ''<'' then ''&lt;''
      else if c = CHR ''>'' then ''&gt;''
      else if c = CHR 0x22 then ''&quot;''
      else if c = CHR 0x27 then ''&#x27;''
      else [c])"

definition html_escape :: "string \<Rightarrow> string" where
  "html_escape s = concat (map escape_char s)"

text \<open>A string method called on a value: \<^verbatim>\<open>AttributeError\<close> unless it is a string.\<close>

definition as_str :: "json \<Rightarrow> py_error + string" where
  "as_str x = (case x of JStr s \<Rightarrow> Inr s | _ \<Rightarrow> Inl AttributeError)"

text \<open>\<^verbatim>\<open>event.get(key) or {}\<close>\<close>

definition get_or_empty :: "json \<Rightarrow> string \<Rightarrow> py_error + json" where
  "get_or_empty event k = bindE (dict_get event k JNull) (\<lambda>v. Inr (py_or v (JObj [])))"

text \<open>\<^verbatim>\<open>event.get(key, {}) or {}\<close>\<close>

definition event_config :: "json \<Rightarrow> string \<Rightarrow> py_error + json" where
  "event_config event k = bindE (dict_get event k (JObj [])) (\<lambda>v. Inr (py_or v (JObj [])))"

text \<open>The text blocks of a model reply:
  \<^verbatim>\<open>for block in content: if block.get("type") == "text": text += block.get("text", "")\<close>\<close>

fun text_blocks :: "json list \<Rightarrow> string \<Rightarrow> py_error + string" where
  "text_blocks [] acc = Inr acc"
| "text_blocks (block # blocks) acc =
     bindE (dict_get block ''type'' JNull) (\<lambda>ty.
     if py_eq ty (JStr ''text'')
     then bindE (dict_get block ''text'' (JStr [])) (\<lambda>t.
          case t of JStr s \<Rightarrow> text_blocks blocks (acc @ s) | _ \<Rightarrow> Inl TypeError)
     else text_blocks blocks acc)"

section \<open>generate\_roi\_brief\<close>

text \<open>Lines 17 to 21: the features, out of one \<^verbatim>\<open>Payload\<close> wrapper when they have
  one.\<close>

definition unwrap_features :: "json \<Rightarrow> py_error + json" where
  "unwrap_features event =
     bindE (get_or_empty event ''features'') (\<lambda>features_input.
     case features_input of
       JObj kvs \<Rightarrow>
         (case map_of kvs ''Payload'' of Some payload \<Rightarrow> Inr payload | None \<Rightarrow> Inr features_input)
     | _ \<Rightarrow> Inr features_input)"

definition system_prompt :: string where
  "system_prompt =
     ''You are a Solutions Consultant at a B2B SaaS company like Highspot. Your task is to produce an ROI brief for a sales team. '' @
     ''Your response MUST be a single, valid JSON object and nothing else. Do not include any text, preamble, or explanation before or after the JSON object. '' @
     ''The JSON object must contain two top-level keys: 'json_data' and 'html_summary'.''"

definition user_prompt_content :: "aws_env \<Rightarrow> json \<Rightarrow> string" where
  "user_prompt_content env features =
     ''\<newline>Here is the financial data for the target account:\<newline>'' @
     json_dumps_indent env features @
     ''\<newline>\<newline>Based on this data, generate the ROI brief.\<newline>'' @
     ''The 'json_data' object should contain fields like: account_name, fiscal_year, key_pain_points (a list of strings), value_hypothesis (a string), and next_best_action (a string).\<newline>'' @
     ''The 'html_summary' should be a clean, professional HTML email body for the sales team.\<newline>''"

text \<open>Lines 51 to 61: the canned output of simulation mode.\<close>

definition simulated_output :: "json \<Rightarrow> py_error + json" where
  "simulated_output features =
     bindE (dict_get features ''company_name'' (JStr ''unknown'')) (\<lambda>account_name.
     bindE (dict_get features ''fiscal_year'' JNull) (\<lambda>fiscal_year.
     bindE (dict_get features ''company_name'' (JStr ''unknown'')) (\<lambda>shown_name.
     bindE (as_str shown_name) (\<lambda>shown.
     Inr (JObj
       [(''json_data'', JObj
          [(''account_name'', account_name),
           (''fiscal_year'', fiscal_year),
           (''key_pain_points'',
              JList [JStr ''Unclear sales enablement content'', JStr ''Long rep ramp time'']),
           (''value_hypothesis'',
              JStr ''Reduce ramp time and improve win-rate by improving content findability and guided plays.''),
           (''next_best_action'', JStr ''Run a 30-day pilot with 3 sales teams.'')]),
        (''html_summary'',
           JStr (''<html><body><h1>Simulated ROI Brief: '' @ html_escape shown @ ''</h1>'' @
                 ''<p>Key hypothesis and actions.</p></body></html>''))])))))"

text \<open>Lines 85 to 96: the reply text out of the response body. The \<^verbatim>\<open>print\<close> of
  \<^verbatim>\<open>response_body.keys()\<close> raises unless the body is a dict.\<close>

definition reply_text :: "aws_env \<Rightarrow> json \<Rightarrow> py_error + string" where
  "reply_text env response_body =
     (case response_body of
        JObj kvs \<Rightarrow>
          (case map_of kvs ''content'' of
             Some (JList blocks) \<Rightarrow> text_blocks blocks []
           | _ \<Rightarrow> Inr (json_dumps env response_body))
      | _ \<Rightarrow> Inl AttributeError)"

text \<open>Lines 105 to 108: what stands for a reply that is not JSON.\<close>

definition fallback_output :: "string \<Rightarrow> json" where
  "fallback_output llm_output_str =
     JObj
       [(''json_data'', JObj []),
        (''html_summary'',
           JStr (''<html><body><h1>LLM output (non-JSON)</h1><pre>'' @
                 html_escape llm_output_str @ ''</pre></body></html>''))]"

text \<open>Lines 100 to 108: \<^verbatim>\<open>json.loads\<close> of the stripped reply, and the fallback on
  \<^verbatim>\<open>json.JSONDecodeError\<close> (no other exception is caught). The first argument is
  \<^verbatim>\<open>json.loads\<close>.\<close>

definition parse_model_output :: "(string \<Rightarrow> py_error + json) \<Rightarrow> string \<Rightarrow> py_error + json" where
  "parse_model_output loads llm_output_str =
     (case loads (py_strip llm_output_str) of
        Inr parsed \<Rightarrow> Inr parsed
      | Inl JSONDecodeError \<Rightarrow> Inr (fallback_output llm_output_str)
      | Inl e \<Rightarrow> Inl e)"

text \<open>The two fields of the brief as the handler reads them from \<^verbatim>\<open>llm_output\<close>
  when it persists them (lines 118 and 119): the structured data and the display
  document.\<close>

definition brief_output :: "json \<Rightarrow> py_error + json \<times> json" where
  "brief_output llm_output =
     bindE (dict_get llm_output ''html_summary'' (JStr [])) (\<lambda>html_summary.
     bindE (dict_get llm_output ''json_data'' (JObj [])) (\<lambda>json_data.
     Inr (json_data, html_summary)))"

text \<open>Lines 64 to 108: the real call and the parse of its reply.\<close>

definition real_bedrock_call :: "aws_env \<Rightarrow> json \<Rightarrow> json \<Rightarrow> json run" where
  "real_bedrock_call env bedrock_cfg features =
     then_run (pure_step
       (dict_get bedrock_cfg ''model_id'' (JStr ''anthropic.claude-3-sonnet-20240229-v1:0''))) (\<lambda>model_id.
     then_run (pure_step
       (dict_get bedrock_cfg ''region'' (JStr (getenv env ''AWS_REGION'' ''us-west-2'')))) (\<lambda>region.
     then_run (pure_step (boto_client env ''bedrock-runtime'' region)) (\<lambda>_.
     then_run (pure_step
       (bindE (dict_get bedrock_cfg ''max_tokens'' (JInt 1500)) (py_int env))) (\<lambda>max_tokens.
     then_run (pure_step
       (bindE (dict_get bedrock_cfg ''temperature'' (JFloat (3 / 10))) (py_float env))) (\<lambda>temperature.
     let body = JObj
           [(''anthropic_version'', JStr ''bedrock-2023-05-31''),
            (''system'', JStr system_prompt),
            (''messages'', JList [JObj
               [(''role'', JStr ''user''),
                (''content'', JList [JObj
                   [(''type'', JStr ''text''),
                    (''text'', JStr (user_prompt_content env features))]])]]),
            (''max_tokens'', max_tokens),
            (''temperature'', temperature)]
     in
     then_run (call_step (BedrockInvoke model_id body)
                 (bedrock_invoke_model env model_id body)) (\<lambda>response_body.
     then_run (pure_step (reply_text env response_body)) (\<lambda>llm_output_str.
     pure_step (parse_model_output (json_loads env) llm_output_str))))))))"

text \<open>Lines 30 and 49 to 108: \<^verbatim>\<open>llm_output\<close>, simulated or real.\<close>

definition invoke_or_simulate :: "aws_env \<Rightarrow> json \<Rightarrow> json \<Rightarrow> json run" where
  "invoke_or_simulate env bedrock_cfg features =
     then_run (pure_step (dict_get bedrock_cfg ''simulate'' (JBool False))) (\<lambda>simulate.
     if py_truthy simulate
     then pure_step (simulated_output features)
     else real_bedrock_call env bedrock_cfg features)"

text \<open>Lines 111 to 120: the two artifacts, written under today's date.\<close>

definition save_artifacts :: "aws_env \<Rightarrow> json \<Rightarrow> json \<Rightarrow> string run" where
  "save_artifacts env features llm_output =
     then_run (pure_step (boto_client env ''s3'' JNull)) (\<lambda>_.
     then_run (pure_step
       (bindE (dict_get features ''company_name'' (JStr ''unknown'')) as_str)) (\<lambda>raw_name.
     let company_name = map (\<lambda>c. if c = CHR '' '' then CHR ''-'' else c) (py_lower raw_name);
         today_str = utc_today env;
         s3_key_html = today_str @ ''/'' @ company_name @ ''-brief.html'';
         s3_key_json = today_str @ ''/'' @ company_name @ ''-data.json''
     in
     then_run (pure_step
       (bindE (dict_get llm_output ''html_summary'' (JStr [])) as_str)) (\<lambda>html.
     then_run (call_step (S3Put s3_key_html (TextBody html) ''text/html'')
                 (s3_put_object env s3_key_html (TextBody html) ''text/html'')) (\<lambda>_.
     then_run (pure_step (dict_get llm_output ''json_data'' (JObj []))) (\<lambda>json_data.
     then_run (call_step (S3Put s3_key_json (JsonBody json_data) ''application/json'')
                 (s3_put_object env s3_key_json (JsonBody json_data) ''application/json'')) (\<lambda>_.
     pure_step (Inr today_str)))))))"

text \<open>Lines 123 to 139: the mail.\<close>

definition send_brief :: "aws_env \<Rightarrow> json \<Rightarrow> json \<Rightarrow> json \<Rightarrow> json run" where
  "send_brief env ses_cfg features llm_output =
     then_run (pure_step (dict_get ses_cfg ''sender'' JNull)) (\<lambda>sender.
     then_run (pure_step (dict_get ses_cfg ''recipient'' JNull)) (\<lambda>recipient.
     then_run (pure_step (dict_get features ''company_name'' (JStr ''N/A''))) (\<lambda>shown_name.
     let subject = JStr (''Account ROI Brief: '' @ format_value env shown_name) in
     if py_not sender \<or> py_not recipient
     then pure_step (Inl (ValueError ''SES sender or recipient missing''))
     else
     then_run (pure_step (boto_client env ''ses'' JNull)) (\<lambda>_.
     then_run (pure_step
       (dict_get llm_output ''html_summary'' (JStr ''<p>Error generating HTML.</p>''))) (\<lambda>html.
     call_step (SesSend sender recipient subject html)
       (ses_send_email env sender recipient subject html))))))"

text \<open>The handler of generate\_roi\_brief.\<close>

definition generate_roi_brief_handler :: "aws_env \<Rightarrow> json \<Rightarrow> json run" where
  "generate_roi_brief_handler env event =
     then_run (pure_step (unwrap_features event)) (\<lambda>features.
     then_run (pure_step (event_config event ''bedrock'')) (\<lambda>bedrock_cfg.
     then_run (pure_step (event_config event ''ses'')) (\<lambda>ses_cfg.
     if py_not features
     then pure_step (Inl (ValueError ''Features data is missing''))
     else
     then_run (invoke_or_simulate env bedrock_cfg features) (\<lambda>llm_output.
     then_run (save_artifacts env features llm_output) (\<lambda>today_str.
     then_run (send_brief env ses_cfg features llm_output) (\<lambda>_.
     pure_step (Inr (JObj
       [(''status'', JStr ''success''),
        (''s3_path'',
           JStr (''s3://'' @ output_bucket env @ ''/'' @ today_str @ ''/''))]))))))))"

section \<open>analyze\_and\_notify\<close>

text \<open>\<^verbatim>\<open>len(x)\<close> and \<^verbatim>\<open>x[:500]\<close> in the two \<^verbatim>\<open>print\<close> statements of lines
  55 and 56 raise unless \<^verbatim>\<open>x\<close> is a string or a list.\<close>

definition check_sliceable :: "json \<Rightarrow> py_error + unit" where
  "check_sliceable x =
     (case x of JStr s \<Rightarrow> Inr () | JList xs \<Rightarrow> Inr () | _ \<Rightarrow> Inl TypeError)"

text \<open>\<^verbatim>\<open>x += s\<close> for a string \<^verbatim>\<open>s\<close>: concatenation on a string; a list is
  extended by the characters of \<^verbatim>\<open>s\<close>.\<close>

definition iadd_str :: "json \<Rightarrow> string \<Rightarrow> py_error + json" where
  "iadd_str x s =
     (case x of
        JStr t \<Rightarrow> Inr (JStr (t @ s))
      | JList xs \<Rightarrow> Inr (JList (xs @ map (\<lambda>c. JStr [c]) s))
      | _ \<Rightarrow> Inl TypeError)"

definition test_content :: string where
  "test_content =
     ''\<newline>\<newline>##### SOURCE 1\<newline>URL: https://example.com\<newline>----- BEGIN CONTENT -----\<newline>This is test content for pipeline testing.\<newline>----- END CONTENT -----\<newline>''"

text \<open>Lines 69 to 74: the region, with an unresolved CloudFormation variable replaced.\<close>

definition bedrock_region_of :: "aws_env \<Rightarrow> json \<Rightarrow> py_error + json" where
  "bedrock_region_of env bedrock_cfg =
     bindE (dict_get bedrock_cfg ''region'' JNull) (\<lambda>r.
     let bedrock_region = py_or r (JStr (getenv env ''BEDROCK_REGION'' ''us-west-2'')) in
     case bedrock_region of
       JStr s \<Rightarrow>
         Inr (if s = ''${AWS::Region}'' \<or> starts_with ''${'' s then JStr ''us-west-2''
              else bedrock_region)
     | _ \<Rightarrow> Inl AttributeError)"

definition analyst_prompt :: string where
  "analyst_prompt =
     ''You are a senior research analyst. Write a crisp HTML email with:\<newline>'' @
     ''- Title with today's date\<newline>'' @
     ''- Executive summary in 5 to 8 bullets\<newline>'' @
     ''- Sections grouped by domain or topic\<newline>'' @
     ''- A short 'What to watch next' list\<newline>'' @
     ''Avoid hallucinations. If a claim is uncertain, mark it as unconfirmed.\<newline>'' @
     ''Use semantic <h2>, <h3>, <ul>, <li>, <p>, <table> when useful.''"

text \<open>Lines 120 to 129: the reply text; the \<^verbatim>\<open>print\<close> of \<^verbatim>\<open>resp.keys()\<close> raises
  unless the response is a dict.\<close>

definition analysis_text :: "json \<Rightarrow> py_error + string" where
  "analysis_text resp =
     (case resp of
        JObj kvs \<Rightarrow>
          bindE (case map_of kvs ''content'' of
                   Some (JList blocks) \<Rightarrow> text_blocks blocks []
                 | _ \<Rightarrow> Inr []) (\<lambda>llm_text.
          Inr (if llm_text = [] then ''<p>No response text produced.</p>'' else llm_text))
      | _ \<Rightarrow> Inl AttributeError)"

text \<open>Lines 135 to 141: the reply wrapped in a document unless it looks like one.\<close>

definition html_body_of :: "aws_env \<Rightarrow> string \<Rightarrow> string" where
  "html_body_of env llm_text =
     (if is_substring ''<html'' (py_lower llm_text) then llm_text
      else ''<html><body>\<newline><h1>Daily Web Intel - '' @ utc_today env @ ''</h1>\<newline>'' @
           llm_text @ ''\<newline></body></html>'')"

text \<open>Lines 6 to 9, \<^verbatim>\<open>_client(service, region)\<close>: the region is passed on only when
  it is truthy.\<close>

definition client_for :: "aws_env \<Rightarrow> string \<Rightarrow> json \<Rightarrow> py_error + unit" where
  "client_for env service region =
     boto_client env service (if py_truthy region then region else JNull)"

text \<open>The handler of analyze\_and\_notify. Its \<^verbatim>\<open>except Exception as e: raise e\<close>
  re-raises what it catches.\<close>

definition analyze_and_notify_handler :: "aws_env \<Rightarrow> json \<Rightarrow> json run" where
  "analyze_and_notify_handler env event =
     then_run (pure_step (get_or_empty event ''aggregated'')) (\<lambda>agg.
     then_run (pure_step (get_or_empty event ''bedrock'')) (\<lambda>bedrock_cfg.
     then_run (pure_step (get_or_empty event ''ses'')) (\<lambda>ses_cfg.
     then_run (pure_step
       (case agg of
          JObj kvs \<Rightarrow> Inr (case map_of kvs ''Payload'' of Some payload \<Rightarrow> payload | None \<Rightarrow> agg)
        | _ \<Rightarrow> Inl AttributeError)) (\<lambda>agg_data.
     then_run (pure_step (dict_get agg_data ''prompt_context'' (JStr []))) (\<lambda>prompt_context.
     then_run (pure_step (dict_get agg_data ''source_count'' (JInt 0))) (\<lambda>source_count.
     then_run (pure_step (check_sliceable prompt_context)) (\<lambda>_.
     if py_not prompt_context
     then pure_step (Inr (JObj [(''error'', JStr ''No aggregated content to analyze'')]))
     else
     then_run (pure_step
       (if py_eq source_count (JInt 0) then iadd_str prompt_context test_content
        else Inr prompt_context)) (\<lambda>prompt.
     then_run (pure_step (bedrock_region_of env bedrock_cfg)) (\<lambda>bedrock_region.
     then_run (pure_step
       (bindE (dict_get bedrock_cfg ''model_id'' JNull) (\<lambda>m.
        Inr (py_or m (JStr ''anthropic.claude-3-sonnet-20240229-v1:0''))))) (\<lambda>model_id.
     then_run (pure_step
       (bindE (dict_get bedrock_cfg ''max_tokens'' (JInt 2000)) (py_int env))) (\<lambda>max_tokens.
     then_run (pure_step
       (bindE (dict_get bedrock_cfg ''temperature'' (JFloat (2 / 10))) (py_float env))) (\<lambda>temperature.
     then_run (pure_step (client_for env ''bedrock-runtime'' bedrock_region)) (\<lambda>_.
     let body = JObj
           [(''anthropic_version'', JStr ''bedrock-2023-05-31''),
            (''system'', JStr analyst_prompt),
            (''messages'', JList [JObj
               [(''role'', JStr ''user''),
                (''content'', JList [JObj [(''type'', JStr ''text''), (''text'', prompt)]])]]),
            (''max_tokens'', max_tokens),
            (''temperature'', temperature)]
     in
     then_run (call_step (BedrockInvoke model_id body)
                 (bedrock_invoke_model env model_id body)) (\<lambda>resp.
     then_run (pure_step (analysis_text resp)) (\<lambda>llm_text.
     let html_body = JStr (html_body_of env llm_text) in
     then_run (pure_step (dict_get ses_cfg ''sender'' JNull)) (\<lambda>sender.
     then_run (pure_step (dict_get ses_cfg ''recipient'' JNull)) (\<lambda>recipient.
     then_run (pure_step (dict_get ses_cfg ''subject'' (JStr ''Daily Web Intel''))) (\<lambda>subject.
     if py_not sender \<or> py_not recipient
     then pure_step (Inr (JObj [(''error'', JStr ''SES sender or recipient missing'')]))
     else
     then_run (pure_step
       (client_for env ''ses''
          (case environ env ''SES_REGION'' of Some r \<Rightarrow> JStr r | None \<Rightarrow> JNull))) (\<lambda>_.
     then_run (call_step (SesSend sender recipient subject html_body)
                 (ses_send_email env sender recipient subject html_body)) (\<lambda>ses_response.
     then_run (pure_step (dict_get ses_response ''MessageId'' JNull)) (\<lambda>message_id.
     pure_step (Inr (JObj
       [(''status'', JStr ''sent''),
        (''recipient'', recipient),
        (''subject'', subject),
        (''model'', model_id),
        (''message_id'', message_id)])))))))))))))))))))))))"

section \<open>Reading a facts document\<close>

text \<open>The notions the properties below speak of, read off a facts document directly:
  the entry of a concept in the US-GAAP taxonomy, its USD unit list, and the annual
  observations among them, that is the entries with a \<^verbatim>\<open>frame\<close> marker and the
  form \<^verbatim>\<open>10-K\<close>. All three are absent on a document that is not built of dicts
  along the way.\<close>

definition us_gaap_concept :: "json \<Rightarrow> string \<Rightarrow> json option" where
  "us_gaap_concept facts_data fact_name =
     (case facts_data of
        JObj kvs \<Rightarrow>
          (case map_of kvs ''facts'' of
             Some (JObj fs) \<Rightarrow>
               (case map_of fs ''us-gaap'' of
                  Some (JObj gaap) \<Rightarrow> map_of gaap fact_name
                | _ \<Rightarrow> None)
           | _ \<Rightarrow> None)
      | _ \<Rightarrow> None)"

definition usd_observations :: "json \<Rightarrow> string \<Rightarrow> json option" where
  "usd_observations facts_data fact_name =
     (case us_gaap_concept facts_data fact_name of
        Some (JObj c) \<Rightarrow>
          (case map_of c ''units'' of
             Some (JObj units) \<Rightarrow> map_of units ''USD''
           | _ \<Rightarrow> None)
      | _ \<Rightarrow> None)"

definition is_annual :: "json \<Rightarrow> bool" where
  "is_annual f =
     (case f of
        JObj kvs \<Rightarrow> map_of kvs ''frame'' \<noteq> None \<and> map_of kvs ''form'' = Some (JStr ''10-K'')
      | _ \<Rightarrow> False)"

definition fy_of :: "json \<Rightarrow> json" where
  "fy_of f =
     (case f of
        JObj kvs \<Rightarrow> (case map_of kvs ''fy'' of Some v \<Rightarrow> v | None \<Rightarrow> JNull)
      | _ \<Rightarrow> JNull)"

definition annual_observations :: "json \<Rightarrow> string \<Rightarrow> json list" where
  "annual_observations facts_data fact_name =
     (case usd_observations facts_data fact_name of
        Some (JList items) \<Rightarrow> filter is_annual items
      | _ \<Rightarrow> [])"

text \<open>Documents for the examples: a facts document of concepts with their USD unit
  lists; an annual observation (form \<^verbatim>\<open>10-K\<close> with a \<^verbatim>\<open>frame\<close> marker), an
  entry of form \<^verbatim>\<open>10-K\<close> without the marker, and a quarterly entry.\<close>

definition facts_doc :: "(string \<times> json list) list \<Rightarrow> json" where
  "facts_doc concepts =
     JObj [(''facts'', JObj [(''us-gaap'',
       JObj (map (\<lambda>c. (fst c, JObj [(''units'', JObj [(''USD'', JList (snd c))])])) concepts))])]"

definition annual_obs :: "int \<Rightarrow> int \<Rightarrow> json" where
  "annual_obs v fy =
     JObj [(''val'', JInt v), (''fy'', JInt fy), (''form'', JStr ''10-K''),
           (''frame'', JStr ''CY'')]"

definition filed_obs :: "int \<Rightarrow> int \<Rightarrow> json" where
  "filed_obs v fy = JObj [(''val'', JInt v), (''fy'', JInt fy), (''form'', JStr ''10-K'')]"

definition quarterly_obs :: "int \<Rightarrow> int \<Rightarrow> json" where
  "quarterly_obs v fy = JObj [(''val'', JInt v), (''fy'', JInt fy), (''form'', JStr ''10-Q'')]"

text \<open>The revenue of the year before, as line 91 looks it up.\<close>

definition prior_revenue :: "json \<Rightarrow> json \<Rightarrow> py_error + json" where
  "prior_revenue facts_data year =
     bindE (py_sub year (JInt 1)) (\<lambda>prev_year.
     bindE (get_latest_fact facts_data ''Revenues'' prev_year) (\<lambda>r.
     Inr (fst r)))"

text \<open>The storage references the handler of build\_features settles on (lines 57 to 65).\<close>

definition resolved_refs :: "json \<Rightarrow> py_error + json" where
  "resolved_refs event = bindE (edgar_object event) (s3_references event)"

text \<open>\<^verbatim>\<open>str\<close> on \<^verbatim>\<open>None\<close>, a \<^verbatim>\<open>bool\<close>, an \<^verbatim>\<open>int\<close> and a string, for the
  examples; floats and containers are not rendered.\<close>

fun decimal_nat :: "nat \<Rightarrow> string" where
  "decimal_nat n =
     (if n < 10 then [char_of (48 + n)]
      else decimal_nat (n div 10) @ [char_of (48 + n mod 10)])"

definition str_of_scalar :: "json \<Rightarrow> string" where
  "str_of_scalar x =
     (case x of
        JNull \<Rightarrow> ''None''
      | JBool b \<Rightarrow> (if b then ''True'' else ''False'')
      | JInt i \<Rightarrow> (if i < 0 then ''-'' @ decimal_nat (nat (- i)) else decimal_nat (nat i))
      | JStr s \<Rightarrow> s
      | _ \<Rightarrow> [])"

text \<open>The scenario of the specification: annual revenue 100 in 2023 and 80 in 2022, a
  sales-and-marketing expense of 20 in 2023, stored under the two keys of a claim
  check.\<close>

definition scenario_facts :: json where
  "scenario_facts =
     facts_doc
       [(''Revenues'', [annual_obs 100 2023, annual_obs 80 2022]),
        (''SalesAndMarketingExpense'', [annual_obs 20 2023])]"

definition scenario_store :: "json \<Rightarrow> py_error + json" where
  "scenario_store key =
     (if key = JStr ''intermediate/42-facts.json'' then Inr scenario_facts
      else if key = JStr ''intermediate/42-submissions.json''
      then Inr (JObj [(''sicDescription'', JStr ''Services-Prepackaged Software''),
                      (''fiscalYearEnd'', JStr ''1231'')])
      else Inl (ExternalError ''NoSuchKey''))"


definition claim_check :: json where
  "claim_check =
     JObj [(''facts_key'', JStr ''intermediate/42-facts.json''),
           (''submissions_key'', JStr ''intermediate/42-submissions.json'')]"

definition scenario_env :: build_env where
  "scenario_env = \<lparr>s3_get_json = scenario_store, format_str = str_of_scalar\<rparr>"

definition scenario_features :: json where
  "scenario_features =
     JObj
       [(''company_name'', JStr ''Acme''),
        (''cik'', JInt 42),
        (''fiscal_year'', JInt 2023),
        (''industry'', JStr ''Services-Prepackaged Software''),
        (''fiscal_year_end'', JStr ''1231''),
        (''latest_revenue_usd'', JInt 100),
        (''yoy_revenue_growth_pct'', JFloat 25),
        (''sm_expense_as_pct_revenue'', JFloat 20),
        (''data_source'', JStr ''https://www.sec.gov/edgar/browse/?CIK=42'')]"

section \<open>Reading an event and a run\<close>

text \<open>The required configuration of an event, read off the event: the storage
  references are ready when the references the handler settles on are a dict with a
  truthy \<^verbatim>\<open>facts_key\<close> and a truthy \<^verbatim>\<open>submissions_key\<close>; the mail
  configuration is ready when the \<^verbatim>\<open>ses\<close> object of the event is a dict with a
  truthy \<^verbatim>\<open>sender\<close> and a truthy \<^verbatim>\<open>recipient\<close>.\<close>

definition has_truthy :: "json \<Rightarrow> string \<Rightarrow> bool" where
  "has_truthy d k =
     (case d of
        JObj kvs \<Rightarrow> (case map_of kvs k of Some v \<Rightarrow> py_truthy v | None \<Rightarrow> False)
      | _ \<Rightarrow> False)"

definition refs_ready :: "json \<Rightarrow> bool" where
  "refs_ready event =
     (case resolved_refs event of
        Inr refs \<Rightarrow> has_truthy refs ''facts_key'' \<and> has_truthy refs ''submissions_key''
      | Inl e \<Rightarrow> False)"

definition ses_ready :: "json \<Rightarrow> bool" where
  "ses_ready event =
     (case event_config event ''ses'' of
        Inr ses_cfg \<Rightarrow> has_truthy ses_cfg ''sender'' \<and> has_truthy ses_cfg ''recipient''
      | Inl e \<Rightarrow> False)"

text \<open>The kinds of external call in a run.\<close>

fun is_model_call :: "call \<Rightarrow> bool" where
  "is_model_call (BedrockInvoke model_id body) = True"
| "is_model_call _ = False"

fun is_mail_call :: "call \<Rightarrow> bool" where
  "is_mail_call (SesSend sender recipient subject html) = True"
| "is_mail_call _ = False"

definition no_model_call :: "'a run \<Rightarrow> bool" where
  "no_model_call r = list_all (\<lambda>c. \<not> is_model_call c) (fst r)"

definition no_mail_call :: "'a run \<Rightarrow> bool" where
  "no_mail_call r = list_all (\<lambda>c. \<not> is_mail_call c) (fst r)"

text \<open>How a run ends: with an exception, or with the returned value
  \<^verbatim>\<open>{"error": message}\<close>.\<close>

definition raised :: "'a run \<Rightarrow> bool" where
  "raised r = (case snd r of Inl e \<Rightarrow> True | Inr x \<Rightarrow> False)"

definition returns_error :: "json run \<Rightarrow> bool" where
  "returns_error r =
     (case snd r of
        Inr (JObj [(k, JStr message)]) \<Rightarrow> k = ''error''
      | _ \<Rightarrow> False)"

text \<open>An environment for the examples: every AWS call succeeds, the model answers with
  the one text block \<open>reply\<close>, and \<^verbatim>\<open>json.loads\<close> is given by the texts of
  \<open>parsed\<close> with their values; every other text is not JSON. Serialisation is not
  exercised by the examples.\<close>

definition demo_env :: "string \<Rightarrow> (string \<times> json) list \<Rightarrow> aws_env" where
  "demo_env reply parsed =
     \<lparr>boto_client = (\<lambda>service region. Inr ()),
      bedrock_invoke_model = (\<lambda>model_id body.
        Inr (JObj [(''content'', JList [JObj [(''type'', JStr ''text''), (''text'', JStr reply)]])])),
      s3_put_object = (\<lambda>key body content_type. Inr ()),
      ses_send_email = (\<lambda>sender recipient subject html. Inr (JObj [(''MessageId'', JStr ''0001'')])),
      json_loads = (\<lambda>s. case map_of parsed s of Some v \<Rightarrow> Inr v | None \<Rightarrow> Inl JSONDecodeError),
      json_dumps = (\<lambda>v. []),
      json_dumps_indent = (\<lambda>v. []),
      format_value = str_of_scalar,
      parse_int = (\<lambda>s. None),
      parse_float = (\<lambda>s. None),
      environ = (\<lambda>name. None),
      output_bucket = ''briefs'',
      utc_today = ''2024-05-01''\<rparr>"

definition brief_event :: "json \<Rightarrow> json \<Rightarrow> json" where
  "brief_event bedrock_cfg ses_cfg =
     JObj [(''features'', JObj [(''company_name'', JStr ''Acme Corp''), (''fiscal_year'', JInt 2023)]),
           (''bedrock'', bedrock_cfg),
           (''ses'', ses_cfg)]"

definition mail_cfg :: json where
  "mail_cfg = JObj [(''sender'', JStr ''from@example.com''), (''recipient'', JStr ''to@example.com'')]"

section \<open>Properties of the fact extractor\<close>

lemma bindE_simps [simp]:
  "bindE (Inl e) f = Inl e"
  "bindE (Inr x) f = f x"
  by (simp_all add: bindE_def)

lemma bindE_eq_Inr: "bindE m f = Inr r \<longleftrightarrow> (\<exists>x. m = Inr x \<and> f x = Inr r)"
  by (cases m) simp_all

lemma get_latest_fact_total: "\<exists>r. get_latest_fact facts_data fact_name fiscal_year = Inr r"
  by (cases "get_latest_fact_body facts_data fact_name fiscal_year")
    (simp_all add: get_latest_fact_def)

lemma body_of_usd_observations:
  assumes "usd_observations facts_data fact_name = Some fact_list"
  shows "get_latest_fact_body facts_data fact_name fiscal_year = select_fact fact_list fiscal_year"
  using assms
  by (auto simp: usd_observations_def us_gaap_concept_def get_latest_fact_body_def
      dict_get_def py_in_def py_getitem_def split: json.splits option.splits)

lemma body_without_usd_observations:
  assumes "usd_observations facts_data fact_name = None"
  shows "get_latest_fact_body facts_data fact_name fiscal_year = Inr (JNull, JNull)
    \<or> (\<exists>e. get_latest_fact_body facts_data fact_name fiscal_year = Inl e)"
  using assms
  by (auto simp: usd_observations_def us_gaap_concept_def get_latest_fact_body_def
      dict_get_def py_in_def py_getitem_def split: json.splits option.splits)

lemma absent_without_usd_observations:
  assumes "usd_observations facts_data fact_name = None"
  shows "get_latest_fact facts_data fact_name fiscal_year = Inr (JNull, JNull)"
  using body_without_usd_observations [OF assms, of fiscal_year]
  by (auto simp: get_latest_fact_def)

lemma usd_observations_need_concept:
  "us_gaap_concept facts_data fact_name = None \<Longrightarrow> usd_observations facts_data fact_name = None"
  by (simp add: usd_observations_def)

lemma is_annual_simps:
  "is_annual (JObj kvs) \<longleftrightarrow>
     map_of kvs ''frame'' \<noteq> None \<and> map_of kvs ''form'' = Some (JStr ''10-K'')"
  "\<not> is_annual JNull"
  "\<not> is_annual (JBool b)"
  "\<not> is_annual (JInt i)"
  "\<not> is_annual (JFloat r)"
  "\<not> is_annual (JStr s)"
  "\<not> is_annual (JList xs)"
  by (simp_all add: is_annual_def)

lemma py_eq_JStr: "py_eq v (JStr s) \<longleftrightarrow> v = JStr s"
  by (cases v) auto

text \<open>Where it does not raise, the comprehension keeps exactly the annual observations.\<close>

lemma annual_filter_eq:
  "annual_filter items = Inr kept \<Longrightarrow> kept = filter is_annual items"
proof (induction items arbitrary: kept)
  case Nil
  then show ?case by simp
next
  case (Cons f fs)
  from Cons.prems obtain rest where rest: "annual_filter fs = Inr rest"
    by (auto simp: bindE_eq_Inr)
  have IH: "rest = filter is_annual fs"
    using Cons.IH rest by simp
  show ?case
    using Cons.prems rest IH
    by (cases f)
      (auto simp: bindE_eq_Inr py_in_def dict_get_def is_annual_simps py_eq_JStr
        split: if_splits option.splits)
qed

text \<open>Sorting keeps the elements.\<close>

lemma fy_keys_snd: "fy_keys xs = Inr keyed \<Longrightarrow> map snd keyed = xs"
  by (induction xs arbitrary: keyed) (auto simp: bindE_eq_Inr)

lemma insert_desc_set: "insert_desc x ys = Inr zs \<Longrightarrow> set zs = insert x (set ys)"
  by (induction ys arbitrary: zs) (auto simp: bindE_eq_Inr split: if_splits)

lemma sort_desc_set: "sort_desc xs = Inr ys \<Longrightarrow> set ys = set xs"
  by (induction xs arbitrary: ys) (auto simp: bindE_eq_Inr dest: insert_desc_set)

lemma sorted_by_fy_desc_set: "sorted_by_fy_desc xs = Inr ys \<Longrightarrow> set ys = set xs"
  by (auto simp: sorted_by_fy_desc_def bindE_eq_Inr dest!: sort_desc_set fy_keys_snd)

text \<open>The exact-year search returns an element whose year equals the requested one.\<close>

lemma find_fy_Some:
  "find_fy y xs = Inr (Some f) \<Longrightarrow>
     f \<in> set xs \<and> py_eq (fy_of f) y \<and> dict_get f ''fy'' JNull = Inr (fy_of f)"
  by (induction xs)
    (auto simp: bindE_eq_Inr dict_get_def fy_of_def
      split: if_splits json.splits option.splits)

lemma val_and_fy_snd: "val_and_fy f = Inr (v, fy) \<Longrightarrow> dict_get f ''fy'' JNull = Inr fy"
  by (auto simp: val_and_fy_def bindE_eq_Inr)

lemma select_fact_exact:
  assumes truthy: "py_truthy y"
    and annual: "filter is_annual items \<noteq> []"
    and result: "select_fact (JList items) y = Inr (v, fy)"
    and present: "(v, fy) \<noteq> (JNull, JNull)"
  shows "py_eq fy y \<and> (\<exists>f \<in> set (filter is_annual items). fy_of f = fy)"
proof -
  from result obtain kept where kept: "annual_filter items = Inr kept"
    by (auto simp: select_fact_def py_iter_def bindE_eq_Inr)
  then have kept_eq: "kept = filter is_annual items"
    by (rule annual_filter_eq)
  with annual have ne: "kept \<noteq> []"
    by simp
  from result kept ne obtain srt where srt: "sorted_by_fy_desc kept = Inr srt"
    by (auto simp: select_fact_def py_iter_def bindE_eq_Inr)
  then have set_srt: "set srt = set kept"
    by (rule sorted_by_fy_desc_set)
  from result kept ne srt truthy obtain found where found: "find_fy y srt = Inr found"
    and after: "(case found of None \<Rightarrow> Inr (JNull, JNull)
          | Some f \<Rightarrow> if py_truthy f then val_and_fy f else Inr (JNull, JNull)) = Inr (v, fy)"
    by (cases srt) (auto simp: select_fact_def py_iter_def bindE_eq_Inr)
  from after present obtain f where f: "found = Some f" and vf: "val_and_fy f = Inr (v, fy)"
    by (cases found) (auto split: if_splits)
  from find_fy_Some [OF found [unfolded f]] val_and_fy_snd [OF vf]
  have "f \<in> set srt" and "py_eq (fy_of f) y" and "fy_of f = fy"
    by auto
  then show ?thesis
    using set_srt kept_eq by auto
qed

text \<open>\<^bold>\<open>C10\<close>. For some facts document \<open>get_latest_fact\<close> returns a value that is not
  \<^verbatim>\<open>None\<close> with the fiscal year \<^verbatim>\<open>None\<close>: the selected observation has no
  \<^verbatim>\<open>fy\<close> field. The first document takes the path of the annual observations
  (line 45), the second the fallback to the unfiltered list (lines 26 to 32).\<close>

theorem get_latest_fact_value_without_year:
  "get_latest_fact
     (facts_doc [(''Revenues'',
        [JObj [(''val'', JInt 5), (''form'', JStr ''10-K''), (''frame'', JStr ''CY'')]])])
     ''Revenues'' JNull = Inr (JInt 5, JNull)
   \<and> get_latest_fact (facts_doc [(''Revenues'', [JObj [(''val'', JInt 5)]])])
     ''Revenues'' JNull = Inr (JInt 5, JNull)"
  by (simp add: facts_doc_def get_latest_fact_def get_latest_fact_body_def select_fact_def
      dict_get_def py_in_def py_getitem_def py_iter_def sorted_by_fy_desc_def val_and_fy_def)

text \<open>\<^bold>\<open>C6\<close>. On every facts document, well formed or not, \<open>get_latest_fact\<close> returns
  and does not raise; when the concept has no entry in the US-GAAP taxonomy, or the entry
  has no USD unit list, it returns \<^verbatim>\<open>(None, None)\<close>.\<close>

theorem get_latest_fact_never_raises:
  "(\<exists>r. get_latest_fact facts_data fact_name fiscal_year = Inr r) \<and>
   (us_gaap_concept facts_data fact_name = None \<or> usd_observations facts_data fact_name = None
      \<longrightarrow> get_latest_fact facts_data fact_name fiscal_year = Inr (JNull, JNull))"
  using get_latest_fact_total absent_without_usd_observations usd_observations_need_concept
  by blast

theorem get_latest_fact_never_raises_witness:
  "us_gaap_concept (facts_doc [(''Revenues'', [annual_obs 100 2023])]) ''Assets'' = None
   \<and> get_latest_fact (facts_doc [(''Revenues'', [annual_obs 100 2023])]) ''Assets'' (JInt 2023)
       = Inr (JNull, JNull)
   \<and> usd_observations (JObj [(''facts'', JList [JStr ''Revenues''])]) ''Revenues'' = None
   \<and> get_latest_fact (JObj [(''facts'', JList [JStr ''Revenues''])]) ''Revenues'' JNull
       = Inr (JNull, JNull)"
proof -
  have absent: "us_gaap_concept (facts_doc [(''Revenues'', [annual_obs 100 2023])]) ''Assets'' = None"
    by (simp add: us_gaap_concept_def facts_doc_def)
  have malformed: "usd_observations (JObj [(''facts'', JList [JStr ''Revenues''])]) ''Revenues'' = None"
    by (simp add: usd_observations_def us_gaap_concept_def)
  from absent malformed show ?thesis
    using get_latest_fact_never_raises
            [of "facts_doc [(''Revenues'', [annual_obs 100 2023])]" "''Assets''" "JInt 2023"]
          get_latest_fact_never_raises
            [of "JObj [(''facts'', JList [JStr ''Revenues''])]" "''Revenues''" JNull]
    by blast
qed

lemma get_latest_fact_of_annual:
  assumes "annual_observations facts_data fact_name \<noteq> []"
  obtains items where "usd_observations facts_data fact_name = Some (JList items)"
    and "annual_observations facts_data fact_name = filter is_annual items"
    and "get_latest_fact_body facts_data fact_name fiscal_year = select_fact (JList items) fiscal_year"
proof -
  from assms obtain items where items: "usd_observations facts_data fact_name = Some (JList items)"
    by (auto simp: annual_observations_def split: option.splits json.splits)
  then have "annual_observations facts_data fact_name = filter is_annual items"
    by (simp add: annual_observations_def)
  with items body_of_usd_observations [OF items] that show thesis
    by blast
qed

text \<open>\<^bold>\<open>C3\<close>, as the code has it. The claim fails on the fallback of lines 26 to 32: with
  no annual observation the most recent entry of any year is returned, whatever year was
  asked for; and a requested year of 0 is falsy in \<^verbatim>\<open>if fiscal_year:\<close>, so it counts
  as no request.\<close>

theorem exact_year_counterexample:
  "get_latest_fact (facts_doc [(''Revenues'', [quarterly_obs 50 2020])]) ''Revenues'' (JInt 2019)
     = Inr (JInt 50, JInt 2020)
   \<and> \<not> py_eq (JInt 2020) (JInt 2019)"
  by (simp add: facts_doc_def quarterly_obs_def get_latest_fact_def get_latest_fact_body_def
      select_fact_def dict_get_def py_in_def py_getitem_def py_iter_def sorted_by_fy_desc_def
      val_and_fy_def)

text \<open>\<^bold>\<open>C3\<close>, amended. When the concept has at least one annual observation and the
  requested fiscal year is truthy (not \<^verbatim>\<open>None\<close>, not 0), a result other than
  \<^verbatim>\<open>(None, None)\<close> carries a fiscal year equal to the requested one (\<^verbatim>\<open>==\<close>).\<close>

theorem exact_year_among_annual_observations:
  assumes "py_truthy fiscal_year"
    and "annual_observations facts_data fact_name \<noteq> []"
    and "get_latest_fact facts_data fact_name fiscal_year = Inr (v, fy)"
    and "(v, fy) \<noteq> (JNull, JNull)"
  shows "py_eq fy fiscal_year"
proof -
  from assms(2) obtain items where
    annual: "annual_observations facts_data fact_name = filter is_annual items"
    and body: "get_latest_fact_body facts_data fact_name fiscal_year
                 = select_fact (JList items) fiscal_year"
    by (rule get_latest_fact_of_annual)
  from assms(3,4) body have "select_fact (JList items) fiscal_year = Inr (v, fy)"
    by (cases "select_fact (JList items) fiscal_year") (auto simp: get_latest_fact_def)
  with assms(1,2,4) annual show ?thesis
    using select_fact_exact [of fiscal_year items v fy] by simp
qed

theorem exact_year_among_annual_observations_witness:
  "py_truthy (JInt 2022)
   \<and> annual_observations
        (facts_doc [(''Revenues'', [annual_obs 100 2023, annual_obs 80 2022])]) ''Revenues'' \<noteq> []
   \<and> get_latest_fact
        (facts_doc [(''Revenues'', [annual_obs 100 2023, annual_obs 80 2022])]) ''Revenues''
        (JInt 2022) = Inr (JInt 80, JInt 2022)
   \<and> py_eq (JInt 2022) (JInt 2022)"
proof -
  let ?doc = "facts_doc [(''Revenues'', [annual_obs 100 2023, annual_obs 80 2022])]"
  have h1: "py_truthy (JInt 2022)"
    by simp
  have h2: "annual_observations ?doc ''Revenues'' \<noteq> []"
    by (simp add: annual_observations_def usd_observations_def us_gaap_concept_def facts_doc_def
        annual_obs_def is_annual_def)
  have h3: "get_latest_fact ?doc ''Revenues'' (JInt 2022) = Inr (JInt 80, JInt 2022)"
    by (simp add: facts_doc_def annual_obs_def get_latest_fact_def get_latest_fact_body_def
        select_fact_def dict_get_def py_in_def py_getitem_def py_iter_def sorted_by_fy_desc_def
        val_and_fy_def)
  have h4: "(JInt 80, JInt 2022) \<noteq> (JNull, JNull)"
    by simp
  from exact_year_among_annual_observations [OF h1 h2 h3 h4] h1 h2 h3 show ?thesis
    by blast
qed




section \<open>Properties of build\_features\<close>

lemma dict_get_JObj [simp]:
  "dict_get (JObj kvs) k d = Inr (case map_of kvs k of Some v \<Rightarrow> v | None \<Rightarrow> d)"
  by (simp add: dict_get_def)


text \<open>The frame markers of the revenue entries matter: without them no entry is an
  annual observation, both revenue lookups take the fallback of lines 26 to 32 and return
  the entry of 2023, and the growth is 0.0.\<close>

lemma scenario_without_frame_markers:
  "derive_kpis
     (facts_doc [(''Revenues'', [filed_obs 100 2023, filed_obs 80 2022]),
                 (''SalesAndMarketingExpense'', [filed_obs 20 2023])])
   = Inr (JInt 100, JInt 2023, JFloat 0, JFloat (1 / 5))"
  by code_simp

lemma derive_kpis_absent:
  assumes "get_latest_fact facts_data ''Revenues'' JNull = Inr (latest_revenue, year)"
    and "year = JNull \<or> latest_revenue = JNull"
  shows "derive_kpis facts_data = Inr (latest_revenue, year, JNull, JNull)"
  using assms by (auto simp: derive_kpis_def)

lemma py_gt_nonpositive:
  "num_of x = Some r \<Longrightarrow> r \<le> 0 \<Longrightarrow> py_gt x (JInt 0) = Inr False"
  by (cases x) (auto simp: py_gt_def)

lemma derive_kpis_yoy_absent:
  assumes d: "derive_kpis facts_data = Inr (latest_revenue, year, yoy, sm)"
    and p: "prior_revenue facts_data year = Inr prev"
    and np: "prev = JNull \<or> (\<exists>r. num_of prev = Some r \<and> r \<le> 0)"
  shows "yoy = JNull"
proof -
  obtain l y where g: "get_latest_fact facts_data ''Revenues'' JNull = Inr (l, y)"
    using get_latest_fact_total [of facts_data "''Revenues''" JNull] by auto
  show ?thesis
  proof (cases "year \<noteq> JNull \<and> latest_revenue \<noteq> JNull")
    case False
    with d g show ?thesis
      by (auto simp: derive_kpis_def bindE_eq_Inr split: if_splits prod.splits)
  next
    case True
    from d g True have ly: "l = latest_revenue" "y = year"
      by (auto simp: derive_kpis_def bindE_eq_Inr split: if_splits prod.splits)
    from p obtain py fy where py: "py_sub year (JInt 1) = Inr py"
      and pr: "get_latest_fact facts_data ''Revenues'' py = Inr (prev, fy)"
      by (auto simp: prior_revenue_def bindE_eq_Inr)
    from np show ?thesis
    proof
      assume "prev = JNull"
      with d g ly True py pr show ?thesis
        by (auto simp: derive_kpis_def bindE_eq_Inr split: if_splits prod.splits)
    next
      assume "\<exists>r. num_of prev = Some r \<and> r \<le> 0"
      then have "py_gt prev (JInt 0) = Inr False"
        using py_gt_nonpositive by blast
      with d g ly True py pr show ?thesis
        by (auto simp: derive_kpis_def bindE_eq_Inr split: if_splits prod.splits)
    qed
  qed
qed

lemma derive_kpis_sm_absent:
  assumes d: "derive_kpis facts_data = Inr (latest_revenue, year, yoy, sm)"
    and np: "num_of latest_revenue = Some r" "r \<le> 0"
  shows "sm = JNull"
proof -
  obtain l y where g: "get_latest_fact facts_data ''Revenues'' JNull = Inr (l, y)"
    using get_latest_fact_total [of facts_data "''Revenues''" JNull] by auto
  have gt: "py_gt latest_revenue (JInt 0) = Inr False"
    using np by (rule py_gt_nonpositive)
  from d g gt show ?thesis
    by (auto simp: derive_kpis_def bindE_eq_Inr split: if_splits prod.splits)
qed

text \<open>\<^bold>\<open>C7\<close>. In the KPI derivation of lines 83 to 106: when the resolved fiscal year or
  the latest revenue is \<^verbatim>\<open>None\<close>, the derivation returns at once with both KPIs
  \<^verbatim>\<open>None\<close>; when the prior-year revenue is \<^verbatim>\<open>None\<close> or a number that is not
  strictly positive, the growth is \<^verbatim>\<open>None\<close>; when the latest revenue is a number
  that is not strictly positive, the expense share is \<^verbatim>\<open>None\<close>; and \<^verbatim>\<open>None\<close>
  stays \<^verbatim>\<open>None\<close> in the rounded percentage of the feature record.\<close>

theorem kpi_absence_propagates:
  "(get_latest_fact facts_data ''Revenues'' JNull = Inr (latest_revenue, year)
      \<and> (year = JNull \<or> latest_revenue = JNull)
      \<longrightarrow> derive_kpis facts_data = Inr (latest_revenue, year, JNull, JNull))
   \<and> (derive_kpis facts_data = Inr (latest_revenue, year, yoy, sm)
      \<and> prior_revenue facts_data year = Inr prev
      \<and> (prev = JNull \<or> (\<exists>r. num_of prev = Some r \<and> r \<le> 0))
      \<longrightarrow> yoy = JNull)
   \<and> (derive_kpis facts_data = Inr (latest_revenue, year, yoy, sm)
      \<and> (\<exists>r. num_of latest_revenue = Some r \<and> r \<le> 0)
      \<longrightarrow> sm = JNull)
   \<and> pct_rounded JNull = Inr JNull"
  using derive_kpis_absent [of facts_data latest_revenue year]
    derive_kpis_yoy_absent [of facts_data latest_revenue year yoy sm prev]
    derive_kpis_sm_absent [of facts_data latest_revenue year yoy sm]
  by (auto simp: pct_rounded_def)

theorem kpi_absence_propagates_witness:
  "get_latest_fact (facts_doc []) ''Revenues'' JNull = Inr (JNull, JNull)
   \<and> derive_kpis (facts_doc []) = Inr (JNull, JNull, JNull, JNull)
   \<and> derive_kpis (facts_doc [(''Revenues'', [annual_obs 100 2023, annual_obs 0 2022])])
       = Inr (JInt 100, JInt 2023, JNull, JNull)
   \<and> prior_revenue (facts_doc [(''Revenues'', [annual_obs 100 2023, annual_obs 0 2022])])
       (JInt 2023) = Inr (JInt 0)
   \<and> num_of (JInt 0) = Some 0
   \<and> derive_kpis (facts_doc [(''Revenues'', [annual_obs (- 5) 2023]),
                              (''SalesAndMarketingExpense'', [annual_obs 20 2023])])
       = Inr (JInt (- 5), JInt 2023, JNull, JNull)
   \<and> num_of (JInt (- 5)) = Some (- 5)"
proof -
  let ?a = "facts_doc []"
  let ?b = "facts_doc [(''Revenues'', [annual_obs 100 2023, annual_obs 0 2022])]"
  let ?c = "facts_doc [(''Revenues'', [annual_obs (- 5) 2023]),
                       (''SalesAndMarketingExpense'', [annual_obs 20 2023])]"
  have a: "get_latest_fact ?a ''Revenues'' JNull = Inr (JNull, JNull)"
    by code_simp
  have b1: "derive_kpis ?b = Inr (JInt 100, JInt 2023, JNull, JNull)"
    by code_simp
  have b2: "prior_revenue ?b (JInt 2023) = Inr (JInt 0)"
    by code_simp
  have b3: "num_of (JInt 0) = Some 0"
    by simp
  have c1: "derive_kpis ?c = Inr (JInt (- 5), JInt 2023, JNull, JNull)"
    by code_simp
  have c2: "num_of (JInt (- 5)) = Some (- 5)"
    by simp
  from a b1 b2 b3 c1 c2 show ?thesis
    using kpi_absence_propagates [of ?a JNull JNull JNull JNull JNull]
      kpi_absence_propagates [of ?b "JInt 100" "JInt 2023" JNull JNull "JInt 0"]
      kpi_absence_propagates [of ?c "JInt (- 5)" "JInt 2023" JNull JNull JNull]
    by blast
qed

text \<open>\<^bold>\<open>C2\<close>, as the code has it. The handler takes the \<^verbatim>\<open>edgar_data\<close> object out of
  one \<^verbatim>\<open>Payload\<close> wrapper and no more. References under two nested wrappers are not
  found, and neither are references under a \<^verbatim>\<open>Payload\<close> key that stands outside
  the \<^verbatim>\<open>edgar_data\<close> key: both runs raise, where the unwrapped form gives the
  feature record.\<close>

theorem nested_wrappers_counterexample:
  "build_features_handler scenario_env
     (JObj [(''name'', JStr ''Acme''), (''cik'', JInt 42),
            (''edgar_data'', JObj [(''Payload'', JObj [(''Payload'',
               JObj [(''s3_references'', claim_check)])])])])
   = Inl (ValueError ''Missing S3 references in the event payload'')
   \<and> build_features_handler scenario_env
     (JObj [(''name'', JStr ''Acme''), (''cik'', JInt 42),
            (''Payload'', JObj [(''edgar_data'', JObj [(''s3_references'', claim_check)])])])
   = Inl (ValueError ''Missing S3 references in the event payload'')
   \<and> build_features_handler scenario_env
     (JObj [(''name'', JStr ''Acme''), (''cik'', JInt 42), (''s3_references'', claim_check)])
   = Inr scenario_features"
  by code_simp

text \<open>\<^bold>\<open>C2\<close>, amended. One \<^verbatim>\<open>Payload\<close> wrapper inside the \<^verbatim>\<open>edgar_data\<close> key is
  transparent: for every payload dict that has no \<^verbatim>\<open>Payload\<close> key of its own, the
  run on the wrapped payload is the run on the payload put directly under
  \<^verbatim>\<open>edgar_data\<close>; and storage references wrapped in \<^verbatim>\<open>edgar_data\<close> and
  \<^verbatim>\<open>Payload\<close> give the run of the same references at the top level of the event.
  The runs are equal whatever S3 answers, so they give the same feature record or raise
  the same exception.\<close>

theorem single_wrapper_transparent:
  "(map_of payload ''Payload'' = None \<longrightarrow>
      build_features_handler env
        (JObj ((''edgar_data'', JObj [(''Payload'', JObj payload)]) # rest))
      = build_features_handler env (JObj ((''edgar_data'', JObj payload) # rest)))
   \<and> (py_truthy refs \<and> map_of rest ''edgar_data'' = None \<longrightarrow>
      build_features_handler env
        (JObj ((''edgar_data'', JObj [(''Payload'', JObj [(''s3_references'', refs)])]) # rest))
      = build_features_handler env (JObj ((''s3_references'', refs) # rest)))"
  by (simp add: build_features_handler_def edgar_object_def s3_references_def py_or_def
      py_not_def cong: if_cong)

theorem single_wrapper_transparent_witness:
  "map_of [(''status'', JStr ''success''), (''cik'', JInt 42), (''s3_references'', claim_check)]
     ''Payload'' = None
   \<and> build_features_handler scenario_env
       (JObj [(''edgar_data'', JObj [(''Payload'',
                 JObj [(''status'', JStr ''success''), (''cik'', JInt 42),
                       (''s3_references'', claim_check)])]),
              (''name'', JStr ''Acme'')])
     = build_features_handler scenario_env
       (JObj [(''edgar_data'',
                 JObj [(''status'', JStr ''success''), (''cik'', JInt 42),
                       (''s3_references'', claim_check)]),
              (''name'', JStr ''Acme'')])
   \<and> py_truthy claim_check
   \<and> map_of [(''name'', JStr ''Acme''), (''cik'', JInt 42)] ''edgar_data'' = None
   \<and> build_features_handler scenario_env
       (JObj [(''edgar_data'', JObj [(''Payload'', JObj [(''s3_references'', claim_check)])]),
              (''name'', JStr ''Acme''), (''cik'', JInt 42)])
     = build_features_handler scenario_env
       (JObj [(''s3_references'', claim_check), (''name'', JStr ''Acme''), (''cik'', JInt 42)])
   \<and> build_features_handler scenario_env
       (JObj [(''s3_references'', claim_check), (''name'', JStr ''Acme''), (''cik'', JInt 42)])
     = Inr scenario_features"
proof -
  have h1: "map_of [(''status'', JStr ''success''), (''cik'', JInt 42),
                    (''s3_references'', claim_check)] ''Payload'' = None"
    by simp
  have h2: "py_truthy claim_check"
    by (simp add: claim_check_def)
  have h3: "map_of [(''name'', JStr ''Acme''), (''cik'', JInt 42)] ''edgar_data'' = None"
    by simp
  have h4: "build_features_handler scenario_env
       (JObj [(''s3_references'', claim_check), (''name'', JStr ''Acme''), (''cik'', JInt 42)])
     = Inr scenario_features"
    by code_simp
  from h1 h2 h3 h4 show ?thesis
    using single_wrapper_transparent
        [of "[(''status'', JStr ''success''), (''cik'', JInt 42), (''s3_references'', claim_check)]"
            scenario_env "[(''name'', JStr ''Acme'')]" claim_check]
      single_wrapper_transparent
        [of "[]" scenario_env "[(''name'', JStr ''Acme''), (''cik'', JInt 42)]" claim_check]
    by blast
qed

section \<open>Properties of the runs of the notifying stages\<close>


lemma then_run_pure [simp]:
  "then_run (pure_step (Inr x)) f = f x"
  "then_run (pure_step (Inl e)) f = ([], Inl e)"
  by (simp_all add: then_run_def pure_step_def)

lemma then_run_call [simp]:
  "then_run (call_step c (Inr x)) f = (c # fst (f x), snd (f x))"
  "then_run (call_step c (Inl e)) f = ([c], Inl e)"
  by (simp_all add: then_run_def call_step_def)

lemma step_sel [simp]:
  "snd (pure_step r) = r" "fst (pure_step r) = []"
  "snd (call_step c r) = r" "fst (call_step c r) = [c]"
  by (simp_all add: pure_step_def call_step_def)

lemma raised_simps [simp]:
  "raised (t, Inl e)" "\<not> raised (t, Inr x)"
  "raised (pure_step r) = isl r" "raised (call_step c r) = isl r"
  by (auto simp: raised_def pure_step_def call_step_def split: sum.splits)

lemma raised_then_run:
  assumes "\<And>x. snd m = Inr x \<Longrightarrow> raised (f x)"
  shows "raised (then_run m f)"
  using assms by (cases "snd m") (auto simp: then_run_def raised_def)

lemma no_model_call_simps [simp]:
  "no_model_call (pure_step r)"
  "no_model_call (call_step c r) = (\<not> is_model_call c)"
  "no_model_call ([], r')"
  by (simp_all add: no_model_call_def pure_step_def call_step_def)


lemma no_mail_call_simps [simp]:
  "no_mail_call (pure_step r)"
  "no_mail_call (call_step c r) = (\<not> is_mail_call c)"
  "no_mail_call ([], r')"
  by (simp_all add: no_mail_call_def pure_step_def call_step_def)

lemma no_mail_call_then_run:
  assumes "no_mail_call m" and "\<And>x. snd m = Inr x \<Longrightarrow> no_mail_call (f x)"
  shows "no_mail_call (then_run m f)"
  using assms by (cases "snd m") (auto simp: then_run_def no_mail_call_def)







lemma get_or_empty_eq: "get_or_empty event k = event_config event k"
  by (cases event) (simp_all add: get_or_empty_def event_config_def dict_get_def py_or_def split: option.splits)

lemma send_brief_raises:
  assumes "\<not> (has_truthy ses_cfg ''sender'' \<and> has_truthy ses_cfg ''recipient'')"
  shows "raised (send_brief env ses_cfg features llm_output)"
proof (cases ses_cfg)
  case (JObj kvs)
  with assms show ?thesis
    unfolding send_brief_def Let_def
    by (cases "dict_get features ''company_name'' (JStr ''N/A'')")
       (auto simp: has_truthy_def py_not_def dict_get_def split: option.splits)
qed (simp_all add: send_brief_def dict_get_def)

lemma send_brief_no_mail:
  assumes "\<not> (has_truthy ses_cfg ''sender'' \<and> has_truthy ses_cfg ''recipient'')"
  shows "no_mail_call (send_brief env ses_cfg features llm_output)"
proof (cases ses_cfg)
  case (JObj kvs)
  with assms show ?thesis
    unfolding send_brief_def Let_def
    by (cases "dict_get features ''company_name'' (JStr ''N/A'')")
       (auto simp: has_truthy_def py_not_def dict_get_def split: option.splits)
qed (simp_all add: send_brief_def dict_get_def)

lemma real_bedrock_call_no_mail: "no_mail_call (real_bedrock_call env bedrock_cfg features)"
  unfolding real_bedrock_call_def Let_def
  by (intro no_mail_call_then_run) simp_all

lemma invoke_or_simulate_no_mail: "no_mail_call (invoke_or_simulate env bedrock_cfg features)"
  unfolding invoke_or_simulate_def
  by (auto intro!: no_mail_call_then_run real_bedrock_call_no_mail)

lemma save_artifacts_no_mail: "no_mail_call (save_artifacts env features llm_output)"
  unfolding save_artifacts_def Let_def
  by (intro no_mail_call_then_run) simp_all

lemma raised_then_run_first: "raised m \<Longrightarrow> raised (then_run m f)"
  by (cases "snd m") (auto simp: then_run_def raised_def)

lemma raised_at_send:
  assumes "\<not> (has_truthy ses_cfg ''sender'' \<and> has_truthy ses_cfg ''recipient'')"
  shows "raised (then_run (send_brief env ses_cfg features llm_output) g)"
  using assms by (intro raised_then_run_first send_brief_raises)

lemma raised_if: "(c \<Longrightarrow> raised a) \<Longrightarrow> (\<not> c \<Longrightarrow> raised b) \<Longrightarrow> raised (if c then a else b)"
  by simp

lemma no_mail_call_if:
  "(c \<Longrightarrow> no_mail_call a) \<Longrightarrow> (\<not> c \<Longrightarrow> no_mail_call b) \<Longrightarrow> no_mail_call (if c then a else b)"
  by simp

lemma generate_raises_without_mail_config:
  assumes "\<not> ses_ready event"
  shows "raised (generate_roi_brief_handler env event)
       \<and> no_mail_call (generate_roi_brief_handler env event)"
proof
  show "raised (generate_roi_brief_handler env event)"
    unfolding generate_roi_brief_handler_def
    using assms
    by (intro raised_at_send raised_then_run raised_if)
       (auto simp: ses_ready_def)
  show "no_mail_call (generate_roi_brief_handler env event)"
    unfolding generate_roi_brief_handler_def
    using assms
    by (intro no_mail_call_then_run no_mail_call_if send_brief_no_mail
          invoke_or_simulate_no_mail save_artifacts_no_mail)
       (auto simp: ses_ready_def)
qed

lemma generate_raises_without_features:
  assumes "unwrap_features event = Inr features" and "py_not features"
  shows "generate_roi_brief_handler env event = ([], Inl (ValueError ''Features data is missing''))"
proof -
  from assms(1) obtain kvs where ev: "event = JObj kvs"
    by (cases event) (auto simp: unwrap_features_def get_or_empty_def dict_get_def)
  show ?thesis
    using assms unfolding ev generate_roi_brief_handler_def
    by (simp add: event_config_def, simp add: pure_step_def)
qed

lemma build_raises_without_refs:
  assumes "\<not> refs_ready event"
  shows "\<exists>e. build_features_handler benv event = Inl e"
proof (cases "resolved_refs event")
  case (Inl e)
  then show ?thesis
    by (cases "edgar_object event")
       (auto simp: build_features_handler_def resolved_refs_def)
next
  case (Inr refs)
  then obtain eo where eo: "edgar_object event = Inr eo" and r: "s3_references event eo = Inr refs"
    by (auto simp: resolved_refs_def bindE_eq_Inr)
  from assms Inr have nr: "\<not> (has_truthy refs ''facts_key'' \<and> has_truthy refs ''submissions_key'')"
    by (simp add: refs_ready_def)
  show ?thesis
  proof (cases refs)
    case (JObj kvs)
    with nr eo r show ?thesis
      by (auto simp: build_features_handler_def has_truthy_def py_not_def split: option.splits)
  qed (use eo r in \<open>simp_all add: build_features_handler_def dict_get_def\<close>)
qed

lemma build_raises_value_error:
  assumes "resolved_refs event = Inr (JObj kvs)" and "\<not> refs_ready event"
  shows "build_features_handler benv event
       = Inl (ValueError ''Missing S3 references in the event payload'')"
proof -
  from assms(1) obtain eo where eo: "edgar_object event = Inr eo"
    and r: "s3_references event eo = Inr (JObj kvs)"
    by (auto simp: resolved_refs_def bindE_eq_Inr)
  from assms have "\<not> (has_truthy (JObj kvs) ''facts_key'' \<and> has_truthy (JObj kvs) ''submissions_key'')"
    by (simp add: refs_ready_def)
  with eo r show ?thesis
    by (auto simp: build_features_handler_def has_truthy_def py_not_def split: option.splits)
qed


lemma returns_error_simps [simp]:
  "returns_error (pure_step (Inr (JObj [(''error'', JStr message)])))"
  by (simp add: returns_error_def)

lemma refused_then_run:
  assumes "\<And>x. snd m = Inr x \<Longrightarrow> raised (f x) \<or> returns_error (f x)"
  shows "raised (then_run m f) \<or> returns_error (then_run m f)"
proof (cases "snd m")
  case (Inl e)
  then show ?thesis
    by (simp add: then_run_def raised_def)
next
  case (Inr x)
  with assms [OF Inr] show ?thesis
    by (auto simp: then_run_def raised_def returns_error_def)
qed

lemma refused_if:
  "(c \<Longrightarrow> raised a \<or> returns_error a) \<Longrightarrow> (\<not> c \<Longrightarrow> raised b \<or> returns_error b)
     \<Longrightarrow> raised (if c then a else b) \<or> returns_error (if c then a else b)"
  by simp

lemma has_truthy_dict_get:
  assumes "dict_get cfg k JNull = Inr v"
  shows "has_truthy cfg k = py_truthy v"
  using assms by (cases cfg) (auto simp: has_truthy_def dict_get_def split: option.splits)

lemma analyze_refuses_without_mail_config:
  assumes "\<not> ses_ready event"
  shows "raised (analyze_and_notify_handler env event)
       \<or> returns_error (analyze_and_notify_handler env event)"
  unfolding analyze_and_notify_handler_def Let_def
  using assms
  by (intro refused_then_run refused_if)
     (auto simp: ses_ready_def get_or_empty_eq py_not_def has_truthy_dict_get)

lemma analyze_no_mail_without_mail_config:
  assumes "\<not> ses_ready event"
  shows "no_mail_call (analyze_and_notify_handler env event)"
  unfolding analyze_and_notify_handler_def Let_def
  using assms
  by (intro no_mail_call_then_run no_mail_call_if)
     (auto simp: ses_ready_def get_or_empty_eq py_not_def has_truthy_dict_get)

section \<open>The brief generator\<close>



text \<open>What \<open>parse_model_output\<close> gives where the claim \<^bold>\<open>C1\<close> holds: the two fields of
  the parsed object when the reply parses to a JSON object, with the defaults of lines
  118 and 119 for a missing field; and the fallback when the reply is not JSON.\<close>

lemma parse_model_output_object:
  assumes "loads (py_strip llm_output_str) = Inr (JObj kvs)"
  shows "bindE (parse_model_output loads llm_output_str) brief_output
       = Inr (case map_of kvs ''json_data'' of Some v \<Rightarrow> v | None \<Rightarrow> JObj [],
              case map_of kvs ''html_summary'' of Some v \<Rightarrow> v | None \<Rightarrow> JStr [])"
  using assms by (simp add: parse_model_output_def brief_output_def)

lemma parse_model_output_fallback:
  assumes "loads (py_strip llm_output_str) = Inl JSONDecodeError"
  shows "bindE (parse_model_output loads llm_output_str) brief_output
       = Inr (JObj [],
              JStr (''<html><body><h1>LLM output (non-JSON)</h1><pre>'' @
                    html_escape llm_output_str @ ''</pre></body></html>''))"
  using assms by (simp add: parse_model_output_def brief_output_def fallback_output_def)

text \<open>\<^bold>\<open>C1\<close>, where the code breaks it. A reply that is valid JSON but not an object, here
  the text \<^verbatim>\<open>[1, 2]\<close>, is parsed without the fallback; \<^verbatim>\<open>llm_output\<close> is then
  a list, and reading its fields (line 118) raises \<^verbatim>\<open>AttributeError\<close>. The handler
  ends with that exception after the one model call: nothing is stored and no mail is
  sent.\<close>

theorem non_object_reply_raises:
  "parse_model_output
     (json_loads (demo_env '' [1, 2] '' [(''[1, 2]'', JList [JInt 1, JInt 2])])) '' [1, 2] ''
     = Inr (JList [JInt 1, JInt 2])
   \<and> brief_output (JList [JInt 1, JInt 2]) = Inl AttributeError
   \<and> snd (generate_roi_brief_handler
            (demo_env '' [1, 2] '' [(''[1, 2]'', JList [JInt 1, JInt 2])])
            (brief_event (JObj []) mail_cfg)) = Inl AttributeError
   \<and> map is_model_call
        (fst (generate_roi_brief_handler
               (demo_env '' [1, 2] '' [(''[1, 2]'', JList [JInt 1, JInt 2])])
               (brief_event (JObj []) mail_cfg))) = [True]"
  by code_simp

section \<open>Missing configuration\<close>

text \<open>\<^bold>\<open>C4\<close>, as the code has it. With no sender in the mail configuration the handler
  of analyze\_and\_notify does not raise: it returns the value
  \<^verbatim>\<open>{"error": "SES sender or recipient missing"}\<close> (lines 152 to 154).\<close>

theorem analyze_returns_error_counterexample:
  "snd (analyze_and_notify_handler (demo_env ''<p>All quiet.</p>'' [])
     (JObj [(''aggregated'', JObj [(''prompt_context'', JStr ''news''), (''source_count'', JInt 1)]),
            (''ses'', JObj [(''recipient'', JStr ''to@example.com'')])]))
   = Inr (JObj [(''error'', JStr ''SES sender or recipient missing'')])
   \<and> \<not> raised (analyze_and_notify_handler (demo_env ''<p>All quiet.</p>'' [])
     (JObj [(''aggregated'', JObj [(''prompt_context'', JStr ''news''), (''source_count'', JInt 1)]),
            (''ses'', JObj [(''recipient'', JStr ''to@example.com'')])]))
   \<and> \<not> ses_ready
     (JObj [(''aggregated'', JObj [(''prompt_context'', JStr ''news''), (''source_count'', JInt 1)]),
            (''ses'', JObj [(''recipient'', JStr ''to@example.com'')])])"
  by code_simp

text \<open>\<^bold>\<open>C4\<close>, amended. The handler of build\_features raises when the storage references
  it settles on lack a truthy \<^verbatim>\<open>facts_key\<close> or \<^verbatim>\<open>submissions_key\<close>, with
  \<^verbatim>\<open>ValueError\<close> when the references are a dict. The handler of generate\_roi\_brief
  raises \<^verbatim>\<open>ValueError\<close> before any external call when the features are missing or
  empty, and raises without sending mail when the mail configuration lacks a truthy
  sender or recipient. The handler of analyze\_and\_notify, on such a mail configuration,
  sends no mail and either raises or returns a value \<^verbatim>\<open>{"error": message}\<close>.\<close>

theorem missing_configuration:
  "(\<not> refs_ready event \<longrightarrow> (\<exists>e. build_features_handler benv event = Inl e))
   \<and> (resolved_refs event = Inr (JObj refs) \<and> \<not> refs_ready event \<longrightarrow>
        build_features_handler benv event
          = Inl (ValueError ''Missing S3 references in the event payload''))
   \<and> (unwrap_features event = Inr features \<and> py_not features \<longrightarrow>
        generate_roi_brief_handler env event
          = ([], Inl (ValueError ''Features data is missing'')))
   \<and> (\<not> ses_ready event \<longrightarrow>
        raised (generate_roi_brief_handler env event)
        \<and> no_mail_call (generate_roi_brief_handler env event))
   \<and> (\<not> ses_ready event \<longrightarrow>
        no_mail_call (analyze_and_notify_handler env event)
        \<and> (raised (analyze_and_notify_handler env event)
           \<or> returns_error (analyze_and_notify_handler env event)))"
  using build_raises_without_refs [of event benv]
    build_raises_value_error [of event refs benv]
    generate_raises_without_features [of event features env]
    generate_raises_without_mail_config [of event env]
    analyze_refuses_without_mail_config [of event env]
    analyze_no_mail_without_mail_config [of event env]
  by blast

theorem missing_configuration_witness:
  "\<not> refs_ready (JObj [(''name'', JStr ''Acme'')])
   \<and> resolved_refs (JObj [(''name'', JStr ''Acme'')]) = Inr (JObj [])
   \<and> build_features_handler scenario_env (JObj [(''name'', JStr ''Acme'')])
       = Inl (ValueError ''Missing S3 references in the event payload'')
   \<and> unwrap_features (JObj [(''ses'', mail_cfg)]) = Inr (JObj [])
   \<and> py_not (JObj [])
   \<and> generate_roi_brief_handler (demo_env ''ignored'' []) (JObj [(''ses'', mail_cfg)])
       = ([], Inl (ValueError ''Features data is missing''))
   \<and> \<not> ses_ready (brief_event (JObj [(''simulate'', JBool True)]) (JObj []))
   \<and> raised (generate_roi_brief_handler (demo_env ''ignored'' [])
               (brief_event (JObj [(''simulate'', JBool True)]) (JObj [])))
   \<and> no_mail_call (analyze_and_notify_handler (demo_env ''ignored'' [])
               (brief_event (JObj [(''simulate'', JBool True)]) (JObj [])))"
proof -
  let ?no_refs = "JObj [(''name'', JStr ''Acme'')]"
  let ?no_features = "JObj [(''ses'', mail_cfg)]"
  let ?no_mail = "brief_event (JObj [(''simulate'', JBool True)]) (JObj [])"
  let ?env = "demo_env ''ignored'' []"
  have h1: "\<not> refs_ready ?no_refs"
    by (simp add: refs_ready_def resolved_refs_def edgar_object_def s3_references_def
        py_or_def py_not_def has_truthy_def)
  have h2: "resolved_refs ?no_refs = Inr (JObj [])"
    by (simp add: resolved_refs_def edgar_object_def s3_references_def py_or_def py_not_def)
  have h3: "unwrap_features ?no_features = Inr (JObj [])"
    by (simp add: unwrap_features_def get_or_empty_def py_or_def)
  have h4: "py_not (JObj [])"
    by (simp add: py_not_def)
  have h5: "\<not> ses_ready ?no_mail"
    by (simp add: ses_ready_def brief_event_def event_config_def py_or_def has_truthy_def)
  have c1: "build_features_handler scenario_env ?no_refs
      = Inl (ValueError ''Missing S3 references in the event payload'')"
    using missing_configuration [of ?no_refs scenario_env "[]" "JObj []" ?env] h1 h2
    by (elim conjE) (erule mp, intro conjI)
  have c2: "generate_roi_brief_handler ?env ?no_features
      = ([], Inl (ValueError ''Features data is missing''))"
    using missing_configuration [of ?no_features scenario_env "[]" "JObj []" ?env] h3 h4
    by (elim conjE) (erule mp, intro conjI)
  have c3: "raised (generate_roi_brief_handler ?env ?no_mail)
      \<and> no_mail_call (generate_roi_brief_handler ?env ?no_mail)"
    using missing_configuration [of ?no_mail scenario_env "[]" "JObj []" ?env] h5
    by (elim conjE) (erule mp)
  have c4: "no_mail_call (analyze_and_notify_handler ?env ?no_mail)
      \<and> (raised (analyze_and_notify_handler ?env ?no_mail)
         \<or> returns_error (analyze_and_notify_handler ?env ?no_mail))"
    using missing_configuration [of ?no_mail scenario_env "[]" "JObj []" ?env] h5
    by (elim conjE) (erule mp)
  from h1 h2 h3 h4 h5 c1 c2 c3 c4 show ?thesis
    by (intro conjI) (erule conjunct1 | assumption)+
qed

end
